theory Spec2Isabelle
  imports Complex_Main
begin

section \<open>Gateway types and configuration (gateway/types/gateway.types.ts)\<close>

text \<open>
  Instants (\<open>Date\<close>, \<open>Date.now()\<close>) are integers counting milliseconds since the epoch.
  JavaScript numbers that carry weights and rates are modelled as exact rationals; the
  counters of the health window are natural numbers.  Every read of the wall clock that
  the source performs (\<open>new Date()\<close>, \<open>Date.now()\<close>) is an explicit argument of the
  function that performs it.
\<close>

record GatewayConfig =
  name :: string
  weight :: rat
  enabled :: bool

record GatewayStats =
  totalRequests :: nat
  successCount :: nat
  failureCount :: nat
  lastFailureTime :: "int option"
  windowStartTime :: int

text \<open>The fields of \<open>GatewayHealth\<close> carry the suffix \<open>_h\<close> where \<open>GatewayStats\<close> or
  \<open>GatewayConfig\<close> already uses the name.\<close>

record GatewayHealth =
  name_h :: string
  isHealthy :: bool
  successRate :: rat
  totalRequests_h :: nat
  successCount_h :: nat
  failureCount_h :: nat
  disabledUntil :: "int option"

record GatewaySelectionResult =
  gateway_sel :: string
  reason_sel :: string

definition GATEWAY_CONFIG :: "GatewayConfig list" where
  "GATEWAY_CONFIG =
     [\<lparr>name = ''razorpay'', weight = 50, enabled = True\<rparr>,
      \<lparr>name = ''payu'', weight = 30, enabled = True\<rparr>,
      \<lparr>name = ''cashfree'', weight = 20, enabled = True\<rparr>]"

definition HEALTH_CHECK_WINDOW_MINUTES :: int where
  "HEALTH_CHECK_WINDOW_MINUTES = 15"

definition UNHEALTHY_COOLDOWN_MINUTES :: int where
  "UNHEALTHY_COOLDOWN_MINUTES = 30"

definition SUCCESS_RATE_THRESHOLD :: rat where
  "SUCCESS_RATE_THRESHOLD = 9 / 10"

definition MIN_REQUESTS_FOR_HEALTH_CHECK :: nat where
  "MIN_REQUESTS_FOR_HEALTH_CHECK = 5"


section \<open>Health tracker (GatewayHealthService)\<close>

record TransactionRecord =
  timestamp :: int
  success :: bool

text \<open>The two private maps of the service.\<close>

record HealthState =
  gatewayTransactions :: "string \<rightharpoonup> TransactionRecord list"
  disabledGateways :: "string \<rightharpoonup> int"

text \<open>The constructor gives every configured gateway an empty history.\<close>

definition newGatewayHealthService :: "GatewayConfig list \<Rightarrow> HealthState" where
  "newGatewayHealthService cfg =
     \<lparr>gatewayTransactions = fold (\<lambda>g m. m(name g \<mapsto> [])) cfg Map.empty,
      disabledGateways = Map.empty\<rparr>"

text \<open>\<open>this.gatewayTransactions.get(gateway) || []\<close>: an array is always truthy, so the
  default applies exactly to a missing key.\<close>

definition historyOf :: "HealthState \<Rightarrow> string \<Rightarrow> TransactionRecord list" where
  "historyOf st gateway =
     (case gatewayTransactions st gateway of Some ts \<Rightarrow> ts | None \<Rightarrow> [])"

text \<open>\<open>getGatewayStats\<close>; \<open>now\<close> is the value of \<open>Date.now()\<close>.  The last failure is the
  head of the failures sorted by descending timestamp, of which only the timestamp is
  returned.\<close>

definition getGatewayStats :: "HealthState \<Rightarrow> string \<Rightarrow> int \<Rightarrow> GatewayStats" where
  "getGatewayStats st gateway now =
     (let transactions = historyOf st gateway;
          windowStart = now - HEALTH_CHECK_WINDOW_MINUTES * 60 * 1000;
          windowTransactions = filter (\<lambda>t. timestamp t \<ge> windowStart) transactions;
          failures = filter (\<lambda>t. \<not> success t) windowTransactions
      in \<lparr>totalRequests = length windowTransactions,
          successCount = length (filter (\<lambda>t. success t) windowTransactions),
          failureCount = length failures,
          lastFailureTime =
            (case rev (sort (map timestamp failures)) of [] \<Rightarrow> None | t # _ \<Rightarrow> Some t),
          windowStartTime = windowStart\<rparr>)"

text \<open>\<open>isGatewayHealthy\<close>; \<open>now\<close> is the value of \<open>new Date()\<close>.  The read deletes an
  elapsed entry, so the function returns the state as well.\<close>

definition isGatewayHealthy :: "HealthState \<Rightarrow> string \<Rightarrow> int \<Rightarrow> bool \<times> HealthState" where
  "isGatewayHealthy st gateway now =
     (case disabledGateways st gateway of
        Some until \<Rightarrow>
          if now > until
          then (True, st\<lparr>disabledGateways := (disabledGateways st)(gateway := None)\<rparr>)
          else (False, st)
      | None \<Rightarrow> (True, st))"

text \<open>\<open>checkAndUpdateHealth\<close>; \<open>now_stats\<close> is the clock read inside \<open>getGatewayStats\<close>,
  \<open>now_trip\<close> the \<open>Date.now()\<close> that dates the cooldown.  The division is reached only
  with at least \<open>MIN_REQUESTS_FOR_HEALTH_CHECK\<close> requests, so never with a zero
  divisor.  The quotient and the threshold are exact rationals; the double-precision
  quotient of two counts compares with the double 0.9 in the same way as long as the
  count stays below \<open>10\<^sup>1\<^sup>5\<close>, far above the length an array can have.\<close>

definition checkAndUpdateHealth :: "HealthState \<Rightarrow> string \<Rightarrow> int \<Rightarrow> int \<Rightarrow> HealthState" where
  "checkAndUpdateHealth st gateway now_stats now_trip =
     (let stats = getGatewayStats st gateway now_stats
      in if totalRequests stats < MIN_REQUESTS_FOR_HEALTH_CHECK then st
         else
           let rate = of_nat (successCount stats) / of_nat (totalRequests stats)
           in if rate < SUCCESS_RATE_THRESHOLD
              then st\<lparr>disabledGateways := (disabledGateways st)
                        (gateway \<mapsto> now_trip + UNHEALTHY_COOLDOWN_MINUTES * 60 * 1000)\<rparr>
              else st)"

text \<open>\<open>recordTransaction\<close>; \<open>now_rec\<close> is the \<open>new Date()\<close> stored in the record, the other
  two readings are those of \<open>checkAndUpdateHealth\<close>.\<close>

definition recordTransaction ::
  "HealthState \<Rightarrow> string \<Rightarrow> bool \<Rightarrow> int \<Rightarrow> int \<Rightarrow> int \<Rightarrow> HealthState" where
  "recordTransaction st gateway succ now_rec now_stats now_trip =
     (let transactions = historyOf st gateway @ [\<lparr>timestamp = now_rec, success = succ\<rparr>];
          st1 = st\<lparr>gatewayTransactions := (gatewayTransactions st)(gateway \<mapsto> transactions)\<rparr>
      in if \<not> succ then checkAndUpdateHealth st1 gateway now_stats now_trip else st1)"

text \<open>\<open>getHealthyGateways\<close>: the filter over the configuration, threading the state that
  \<open>isGatewayHealthy\<close> may change.  \<open>&&\<close> does not call \<open>isGatewayHealthy\<close> for a gateway
  that is not enabled.  All clock reads of one pass return \<open>now\<close>.\<close>

fun getHealthyGateways ::
  "GatewayConfig list \<Rightarrow> HealthState \<Rightarrow> int \<Rightarrow> string list \<times> HealthState" where
  "getHealthyGateways [] st now = ([], st)"
| "getHealthyGateways (c # cs) st now =
     (if enabled c
      then (case isGatewayHealthy st (name c) now of
              (h, st1) \<Rightarrow>
                (case getHealthyGateways cs st1 now of
                   (ns, st2) \<Rightarrow> (if h then name c # ns else ns, st2)))
      else getHealthyGateways cs st now)"

text \<open>\<open>getGatewayHealth\<close>: \<open>disabledUntil\<close> is read before \<open>isGatewayHealthy\<close> runs.
  \<open>now_stats\<close> and \<open>now_health\<close> are the two clock reads.\<close>

definition getGatewayHealth ::
  "HealthState \<Rightarrow> string \<Rightarrow> int \<Rightarrow> int \<Rightarrow> GatewayHealth \<times> HealthState" where
  "getGatewayHealth st gateway now_stats now_health =
     (let stats = getGatewayStats st gateway now_stats;
          du = disabledGateways st gateway
      in case isGatewayHealthy st gateway now_health of
           (h, st1) \<Rightarrow>
             (\<lparr>name_h = gateway,
               isHealthy = h,
               successRate =
                 (if totalRequests stats > 0
                  then of_nat (successCount stats) / of_nat (totalRequests stats) else 1),
               totalRequests_h = totalRequests stats,
               successCount_h = successCount stats,
               failureCount_h = failureCount stats,
               disabledUntil = du\<rparr>, st1))"

text \<open>\<open>cleanupOldRecords\<close>: every stored history is filtered; \<open>now\<close> is \<open>Date.now()\<close>.\<close>

definition cleanupOldRecords :: "HealthState \<Rightarrow> int \<Rightarrow> HealthState" where
  "cleanupOldRecords st now =
     (let cutoffTime = now - HEALTH_CHECK_WINDOW_MINUTES * 2 * 60 * 1000
      in st\<lparr>gatewayTransactions :=
              (\<lambda>g. map_option (filter (\<lambda>t. timestamp t \<ge> cutoffTime))
                      (gatewayTransactions st g))\<rparr>)"

text \<open>\<open>disableGateway\<close> for a whole number of minutes; \<open>now\<close> is \<open>Date.now()\<close>.\<close>

definition disableGateway :: "HealthState \<Rightarrow> string \<Rightarrow> int \<Rightarrow> int \<Rightarrow> HealthState" where
  "disableGateway st gateway minutes now =
     st\<lparr>disabledGateways := (disabledGateways st)(gateway \<mapsto> now + minutes * 60 * 1000)\<rparr>"

definition enableGateway :: "HealthState \<Rightarrow> string \<Rightarrow> HealthState" where
  "enableGateway st gateway = st\<lparr>disabledGateways := (disabledGateways st)(gateway := None)\<rparr>"


section \<open>Errors\<close>

text \<open>
  One constructor for each \<open>throw\<close> of the three services:
  \<open>NoHealthyGateways\<close> is \<open>Error('No healthy payment gateways available')\<close>,
  \<open>TransactionAlreadyInitiated\<close>, \<open>GatewayMismatch\<close> and \<open>TransactionAlreadyProcessed\<close> are
  the three \<open>BadRequestException\<close>s, \<open>TransactionNotFound\<close> the \<open>NotFoundException\<close>s.
  \<open>UndefinedSelection\<close> stands for the \<open>TypeError\<close> that reading \<open>.name\<close> of an undefined
  selection would raise.
\<close>

datatype error =
    NoHealthyGateways
  | UndefinedSelection
  | TransactionAlreadyInitiated
  | TransactionNotFound
  | GatewayMismatch
  | TransactionAlreadyProcessed


section \<open>Gateway router (GatewayService)\<close>

text \<open>\<open>getHealthyGatewayConfigs\<close>: the configuration filtered by membership of the name
  in the list of healthy names.\<close>

definition getHealthyGatewayConfigs ::
  "GatewayConfig list \<Rightarrow> HealthState \<Rightarrow> int \<Rightarrow> GatewayConfig list \<times> HealthState" where
  "getHealthyGatewayConfigs cfg st now =
     (case getHealthyGateways cfg st now of
        (healthyNames, st') \<Rightarrow> (filter (\<lambda>config. name config \<in> set healthyNames) cfg, st'))"

text \<open>The \<open>for\<close> loop of \<open>selectGateway\<close>: the third argument is \<open>cumulativeWeight\<close> on
  entry; \<open>None\<close> means the loop ended without a \<open>break\<close>.\<close>

fun walkGateways :: "GatewayConfig list \<Rightarrow> rat \<Rightarrow> rat \<Rightarrow> GatewayConfig option" where
  "walkGateways [] random cumulativeWeight = None"
| "walkGateways (g # gs) random cumulativeWeight =
     (if random \<le> cumulativeWeight + weight g then Some g
      else walkGateways gs random (cumulativeWeight + weight g))"

text \<open>The loop followed by the fallback \<open>if (!selectedGateway) selectedGateway =
  healthyGateways[0]\<close>; index 0 of an empty array is \<open>undefined\<close>, here \<open>None\<close>.\<close>

definition pickGateway :: "GatewayConfig list \<Rightarrow> rat \<Rightarrow> GatewayConfig option" where
  "pickGateway healthyGateways random =
     (case walkGateways healthyGateways random 0 of
        Some g \<Rightarrow> Some g
      | None \<Rightarrow> (case healthyGateways of [] \<Rightarrow> None | g # _ \<Rightarrow> Some g))"

fun joinWith :: "string \<Rightarrow> string list \<Rightarrow> string" where
  "joinWith sep [] = []"
| "joinWith sep [x] = x"
| "joinWith sep (x # y # ys) = x @ sep @ joinWith sep (y # ys)"

text \<open>\<open>buildSelectionReason\<close>.  The argument \<open>pct\<close> renders
  \<open>((selected.weight / totalWeight) * 100).toFixed(1)\<close> from the two numbers.\<close>

definition buildSelectionReason ::
  "GatewayConfig list \<Rightarrow> (rat \<Rightarrow> rat \<Rightarrow> string) \<Rightarrow> GatewayConfig \<Rightarrow> GatewayConfig list
     \<Rightarrow> rat \<Rightarrow> string" where
  "buildSelectionReason cfg pct selected healthyGateways totalWeight =
     (let unhealthyGateways =
            filter (\<lambda>g. \<not> list_ex (\<lambda>hg. name hg = name g) healthyGateways) cfg;
          reason = ''Selected '' @ name selected @ '' via weighted routing (''
                     @ pct (weight selected) totalWeight @ ''% effective probability)''
      in if length unhealthyGateways > 0
         then reason @ ''. Excluded unhealthy gateways: ''
                @ joinWith '', '' (map name unhealthyGateways)
         else reason)"

text \<open>\<open>selectGateway\<close>.  \<open>now\<close> is the clock of the health pass, \<open>rnd\<close> the value of
  \<open>Math.random()\<close>.\<close>

definition selectGateway ::
  "GatewayConfig list \<Rightarrow> (rat \<Rightarrow> rat \<Rightarrow> string) \<Rightarrow> HealthState \<Rightarrow> int \<Rightarrow> rat
     \<Rightarrow> (error + GatewaySelectionResult) \<times> HealthState" where
  "selectGateway cfg pct st now rnd =
     (case getHealthyGatewayConfigs cfg st now of
        (healthyGateways, st') \<Rightarrow>
          if length healthyGateways = 0 then (Inl NoHealthyGateways, st')
          else
            (let totalWeight = foldl (\<lambda>sum g. sum + weight g) 0 healthyGateways;
                 random = rnd * totalWeight
             in (case pickGateway healthyGateways random of
                   None \<Rightarrow> (Inl UndefinedSelection, st')
                 | Some selectedGateway \<Rightarrow>
                     (Inr \<lparr>gateway_sel = name selectedGateway,
                           reason_sel = buildSelectionReason cfg pct selectedGateway
                                          healthyGateways totalWeight\<rparr>, st'))))"

definition isValidGateway :: "GatewayConfig list \<Rightarrow> string \<Rightarrow> bool" where
  "isValidGateway cfg gatewayName = list_ex (\<lambda>g. name g = gatewayName) cfg"

definition recordTransactionResult ::
  "HealthState \<Rightarrow> string \<Rightarrow> bool \<Rightarrow> int \<Rightarrow> int \<Rightarrow> int \<Rightarrow> HealthState" where
  "recordTransactionResult st gateway succ now_rec now_stats now_trip =
     recordTransaction st gateway succ now_rec now_stats now_trip"


section \<open>Transaction ledger (TransactionsService)\<close>

datatype TransactionStatus = PENDING | SUCCESS | FAILURE

datatype PaymentInstrumentType = CARD | UPI | NETBANKING | WALLET

datatype CallbackStatus = CallbackSUCCESS | CallbackFAILURE

text \<open>An optional field is an \<open>option\<close>: \<open>None\<close> is an absent (or deleted) property.\<close>

record PaymentInstrument =
  instrument_type :: PaymentInstrumentType
  card_number :: "string option"
  expiry :: "string option"
  cvv :: "string option"
  upi_id :: "string option"
  bank_code :: "string option"
  wallet_provider :: "string option"

record Transaction =
  id_txn :: string
  order_id :: string
  amount :: rat
  currency :: string
  status :: TransactionStatus
  gateway :: string
  gateway_selection_reason :: string
  payment_instrument :: PaymentInstrument
  failure_reason :: "string option"
  created_at :: int
  updated_at :: int

record InitiateTransactionDto =
  order_id_dto :: string
  amount_dto :: rat
  currency_dto :: "string option"
  payment_instrument_dto :: PaymentInstrument

record CallbackDto =
  order_id_cb :: string
  status_cb :: CallbackStatus
  gateway_cb :: string
  reason_cb :: "string option"

record LedgerState =
  transactions :: "string \<rightharpoonup> Transaction"
  orderToTransaction :: "string \<rightharpoonup> string"

text \<open>A string property is truthy when it is present and not empty.\<close>

definition truthy :: "string option \<Rightarrow> bool" where
  "truthy v = (case v of None \<Rightarrow> False | Some s \<Rightarrow> s \<noteq> [])"

text \<open>\<open>sanitizePaymentInstrument\<close>; \<open>slice(-4)\<close> keeps the last four characters, or the
  whole string when it is shorter.\<close>

definition sanitizePaymentInstrument :: "PaymentInstrument \<Rightarrow> PaymentInstrument" where
  "sanitizePaymentInstrument instrument =
     (let sanitized =
            (if truthy (card_number instrument)
             then instrument\<lparr>card_number :=
                    map_option (\<lambda>s. ''****'' @ drop (length s - 4) s) (card_number instrument)\<rparr>
             else instrument)
      in sanitized\<lparr>cvv := None\<rparr>)"

text \<open>The duplicate test at the head of \<open>initiateTransaction\<close>.\<close>

definition pendingForOrder :: "LedgerState \<Rightarrow> string \<Rightarrow> bool" where
  "pendingForOrder ls oid =
     (case orderToTransaction ls oid of
        None \<Rightarrow> False
      | Some existingTxnId \<Rightarrow>
          (case transactions ls existingTxnId of
             None \<Rightarrow> False
           | Some existingTxn \<Rightarrow> status existingTxn = PENDING))"

text \<open>\<open>initiateTransaction\<close>.  The environment is read in the order of the source:
  \<open>now_sel\<close> and \<open>rnd\<close> inside \<open>selectGateway\<close>, then \<open>uuid\<close> from \<open>crypto.randomUUID()\<close>,
  then \<open>now\<close> from \<open>new Date()\<close>.  The result carries both service states after the call.\<close>

definition initiateTransaction ::
  "GatewayConfig list \<Rightarrow> (rat \<Rightarrow> rat \<Rightarrow> string) \<Rightarrow> LedgerState \<Rightarrow> HealthState
     \<Rightarrow> InitiateTransactionDto \<Rightarrow> int \<Rightarrow> rat \<Rightarrow> string \<Rightarrow> int
     \<Rightarrow> (error + Transaction) \<times> LedgerState \<times> HealthState" where
  "initiateTransaction cfg pct ls hs dto now_sel rnd uuid now =
     (if pendingForOrder ls (order_id_dto dto)
      then (Inl TransactionAlreadyInitiated, ls, hs)
      else
        case selectGateway cfg pct hs now_sel rnd of
          (Inl e, hs') \<Rightarrow> (Inl e, ls, hs')
        | (Inr gatewaySelection, hs') \<Rightarrow>
            let transaction =
                  \<lparr>id_txn = uuid,
                   order_id = order_id_dto dto,
                   amount = amount_dto dto,
                   currency = (if truthy (currency_dto dto)
                               then the (currency_dto dto) else ''INR''),
                   status = PENDING,
                   gateway = gateway_sel gatewaySelection,
                   gateway_selection_reason = reason_sel gatewaySelection,
                   payment_instrument =
                     sanitizePaymentInstrument (payment_instrument_dto dto),
                   failure_reason = None,
                   created_at = now,
                   updated_at = now\<rparr>
            in (Inr transaction,
                ls\<lparr>transactions := (transactions ls)(uuid \<mapsto> transaction),
                   orderToTransaction :=
                     (orderToTransaction ls)(order_id_dto dto \<mapsto> uuid)\<rparr>,
                hs'))"

text \<open>\<open>processCallback\<close>.  \<open>now\<close> dates \<open>updated_at\<close>; the other three readings are those
  of \<open>recordTransaction\<close>.  The transaction object is changed in place, which is the
  update of the map at its key.  \<open>!transactionId\<close> also holds for an empty id.\<close>

definition processCallback ::
  "LedgerState \<Rightarrow> HealthState \<Rightarrow> CallbackDto \<Rightarrow> int \<Rightarrow> int \<Rightarrow> int \<Rightarrow> int
     \<Rightarrow> (error + Transaction) \<times> LedgerState \<times> HealthState" where
  "processCallback ls hs dto now now_rec now_stats now_trip =
     (case orderToTransaction ls (order_id_cb dto) of
        None \<Rightarrow> (Inl TransactionNotFound, ls, hs)
      | Some transactionId \<Rightarrow>
          if transactionId = [] then (Inl TransactionNotFound, ls, hs)
          else
            (case transactions ls transactionId of
               None \<Rightarrow> (Inl TransactionNotFound, ls, hs)
             | Some transaction \<Rightarrow>
                 if gateway transaction \<noteq> gateway_cb dto
                 then (Inl GatewayMismatch, ls, hs)
                 else if status transaction \<noteq> PENDING
                 then (Inl TransactionAlreadyProcessed, ls, hs)
                 else
                   let isSuccess = (status_cb dto = CallbackSUCCESS);
                       t1 = transaction\<lparr>status := (if isSuccess then SUCCESS else FAILURE),
                                        updated_at := now\<rparr>;
                       t2 = (if \<not> isSuccess \<and> truthy (reason_cb dto)
                             then t1\<lparr>failure_reason := reason_cb dto\<rparr> else t1);
                       hs' = recordTransactionResult hs (gateway_cb dto) isSuccess
                               now_rec now_stats now_trip
                   in (Inr t2,
                       ls\<lparr>transactions := (transactions ls)(transactionId \<mapsto> t2)\<rparr>,
                       hs')))"

definition getTransaction :: "LedgerState \<Rightarrow> string \<Rightarrow> error + Transaction" where
  "getTransaction ls transactionId =
     (case transactions ls transactionId of
        None \<Rightarrow> Inl TransactionNotFound
      | Some transaction \<Rightarrow> Inr transaction)"

definition getTransactionByOrderId :: "LedgerState \<Rightarrow> string \<Rightarrow> error + Transaction" where
  "getTransactionByOrderId ls orderId =
     (case orderToTransaction ls orderId of
        None \<Rightarrow> Inl TransactionNotFound
      | Some transactionId \<Rightarrow>
          if transactionId = [] then Inl TransactionNotFound
          else getTransaction ls transactionId)"

definition newTransactionsService :: LedgerState where
  "newTransactionsService = \<lparr>transactions = Map.empty, orderToTransaction = Map.empty\<rparr>"


section \<open>Sample states\<close>

text \<open>The health tracker as constructed for the shipped configuration, and trackers
  reached from it by recorded outcomes and administrative disables.\<close>

definition freshHealth :: HealthState where
  "freshHealth = newGatewayHealthService GATEWAY_CONFIG"

definition agedHealth :: HealthState where
  "agedHealth =
     recordTransaction
       (recordTransaction
         (recordTransaction
           (recordTransaction freshHealth ''razorpay'' False 100000 100000 100000)
           ''razorpay'' True 500000 500000 500000)
         ''razorpay'' False 1500000 1500000 1500000)
       ''razorpay'' True 1900000 1900000 1900000"

definition fourFailures :: HealthState where
  "fourFailures =
     recordTransaction
       (recordTransaction
         (recordTransaction
           (recordTransaction freshHealth ''razorpay'' False 1000 1000 1000)
           ''razorpay'' False 2000 2000 2000)
         ''razorpay'' False 3000 3000 3000)
       ''razorpay'' False 4000 4000 4000"

definition oneSuccessThreeFailures :: HealthState where
  "oneSuccessThreeFailures =
     recordTransaction
       (recordTransaction
         (recordTransaction
           (recordTransaction freshHealth ''razorpay'' True 1000 1000 1000)
           ''razorpay'' False 2000 2000 2000)
         ''razorpay'' False 3000 3000 3000)
       ''razorpay'' False 4000 4000 4000"

definition fourUnknownFailures :: HealthState where
  "fourUnknownFailures =
     recordTransaction
       (recordTransaction
         (recordTransaction
           (recordTransaction freshHealth ''stripe'' False 1000 1000 1000)
           ''stripe'' False 2000 2000 2000)
         ''stripe'' False 3000 3000 3000)
       ''stripe'' False 4000 4000 4000"

definition razorpayDisabled :: HealthState where
  "razorpayDisabled = disableGateway freshHealth ''razorpay'' 30 0"

definition allDisabled :: HealthState where
  "allDisabled =
     disableGateway (disableGateway razorpayDisabled ''payu'' 30 0) ''cashfree'' 30 0"

text \<open>A rendering of the percentage for the sample runs.\<close>

definition noPct :: "rat \<Rightarrow> rat \<Rightarrow> string" where
  "noPct w tw = ''?''"

text \<open>A card payment for the order \<open>ORD123\<close>, created on the fresh services, and its
  callbacks.\<close>

definition cardInstrument :: PaymentInstrument where
  "cardInstrument =
     \<lparr>instrument_type = CARD, card_number = Some ''4111111111111111'',
      expiry = Some ''12/25'', cvv = Some ''123'', upi_id = None, bank_code = None,
      wallet_provider = None\<rparr>"

definition cardDto :: InitiateTransactionDto where
  "cardDto =
     \<lparr>order_id_dto = ''ORD123'', amount_dto = 499, currency_dto = None,
      payment_instrument_dto = cardInstrument\<rparr>"

definition pendingSystem :: "(error + Transaction) \<times> LedgerState \<times> HealthState" where
  "pendingSystem =
     initiateTransaction GATEWAY_CONFIG noPct newTransactionsService freshHealth cardDto
       1000 (1 / 2) ''txn-1'' 1000"

definition successCallback :: CallbackDto where
  "successCallback =
     \<lparr>order_id_cb = ''ORD123'', status_cb = CallbackSUCCESS, gateway_cb = ''razorpay'',
      reason_cb = None\<rparr>"

definition paidSystem :: "(error + Transaction) \<times> LedgerState \<times> HealthState" where
  "paidSystem =
     processCallback (fst (snd pendingSystem)) (snd (snd pendingSystem)) successCallback
       2000 2000 2000 2000"

definition pendingTransaction :: Transaction where
  "pendingTransaction =
     \<lparr>id_txn = ''txn-1'', order_id = ''ORD123'', amount = 499, currency = ''INR'',
      status = PENDING, gateway = ''razorpay'',
      gateway_selection_reason =
        ''Selected razorpay via weighted routing (?% effective probability)'',
      payment_instrument = cardInstrument\<lparr>card_number := Some ''****1111'', cvv := None\<rparr>,
      failure_reason = None, created_at = 1000, updated_at = 1000\<rparr>"

definition paidThenAllDisabled :: HealthState where
  "paidThenAllDisabled =
     disableGateway (disableGateway (disableGateway (snd (snd paidSystem))
       ''razorpay'' 30 3000) ''payu'' 30 3000) ''cashfree'' 30 3000"

definition emptyCardDto :: InitiateTransactionDto where
  "emptyCardDto =
     \<lparr>order_id_dto = ''ORD123'', amount_dto = 499, currency_dto = None,
      payment_instrument_dto = cardInstrument\<lparr>card_number := Some []\<rparr>\<rparr>"

definition emptyCardSystem :: "(error + Transaction) \<times> LedgerState \<times> HealthState" where
  "emptyCardSystem =
     initiateTransaction GATEWAY_CONFIG noPct newTransactionsService freshHealth emptyCardDto
       1000 (1 / 2) ''txn-1'' 1000"

definition pendingLedger :: LedgerState where
  "pendingLedger = fst (snd pendingSystem)"

definition paidLedger :: LedgerState where
  "paidLedger = fst (snd paidSystem)"

definition paidHealth :: HealthState where
  "paidHealth = snd (snd paidSystem)"

definition mismatchCallback :: CallbackDto where
  "mismatchCallback =
     \<lparr>order_id_cb = ''ORD123'', status_cb = CallbackSUCCESS, gateway_cb = ''payu'',
      reason_cb = None\<rparr>"

definition failureCallback :: CallbackDto where
  "failureCallback =
     \<lparr>order_id_cb = ''ORD123'', status_cb = CallbackFAILURE, gateway_cb = ''razorpay'',
      reason_cb = Some ''Customer Cancelled''\<rparr>"


section \<open>Properties of the health tracker\<close>

lemmas health_eval =
  freshHealth_def newGatewayHealthService_def GATEWAY_CONFIG_def recordTransaction_def
  checkAndUpdateHealth_def getGatewayStats_def historyOf_def Let_def
  HEALTH_CHECK_WINDOW_MINUTES_def UNHEALTHY_COOLDOWN_MINUTES_def
  SUCCESS_RATE_THRESHOLD_def MIN_REQUESTS_FOR_HEALTH_CHECK_def
  cleanupOldRecords_def isGatewayHealthy_def disableGateway_def

lemma agedHealth_history:
  "historyOf agedHealth ''razorpay'' =
     [\<lparr>timestamp = 100000, success = False\<rparr>, \<lparr>timestamp = 500000, success = True\<rparr>,
      \<lparr>timestamp = 1500000, success = False\<rparr>, \<lparr>timestamp = 1900000, success = True\<rparr>]"
  by (simp add: agedHealth_def health_eval)

lemma fst_getGatewayHealth:
  "fst (getGatewayHealth st g t_stats t_health) =
     \<lparr>name_h = g,
      isHealthy = fst (isGatewayHealthy st g t_health),
      successRate =
        (if totalRequests (getGatewayStats st g t_stats) > 0
         then of_nat (successCount (getGatewayStats st g t_stats))
                / of_nat (totalRequests (getGatewayStats st g t_stats))
         else 1),
      totalRequests_h = totalRequests (getGatewayStats st g t_stats),
      successCount_h = successCount (getGatewayStats st g t_stats),
      failureCount_h = failureCount (getGatewayStats st g t_stats),
      disabledUntil = disabledGateways st g\<rparr>"
  by (cases "isGatewayHealthy st g t_health") (simp add: getGatewayHealth_def Let_def)


subsection \<open>What recording changes\<close>

lemma disabled_checkAndUpdateHealth_other:
  "g' \<noteq> g \<Longrightarrow> disabledGateways (checkAndUpdateHealth st g a b) g' = disabledGateways st g'"
  by (simp add: checkAndUpdateHealth_def Let_def)

lemma transactions_checkAndUpdateHealth:
  "gatewayTransactions (checkAndUpdateHealth st g a b) = gatewayTransactions st"
  by (simp add: checkAndUpdateHealth_def Let_def)

lemma getGatewayStats_cong:
  "gatewayTransactions st = gatewayTransactions st' \<Longrightarrow>
     getGatewayStats st g now = getGatewayStats st' g now"
  by (simp add: getGatewayStats_def historyOf_def)

lemma transactions_recordTransaction:
  "gatewayTransactions (recordTransaction st g s a b c)
     = (gatewayTransactions st)(g \<mapsto> historyOf st g @ [\<lparr>timestamp = a, success = s\<rparr>])"
  by (simp add: recordTransaction_def Let_def transactions_checkAndUpdateHealth)

lemma historyOf_recordTransaction:
  "historyOf (recordTransaction st g s a b c) g' =
     (if g' = g then historyOf st g @ [\<lparr>timestamp = a, success = s\<rparr>] else historyOf st g')"
  by (simp add: historyOf_def transactions_recordTransaction)

lemma disabled_recordTransaction_self:
  "disabledGateways (recordTransaction st g succ a b c) g =
     (if \<not> succ
         \<and> MIN_REQUESTS_FOR_HEALTH_CHECK
             \<le> totalRequests (getGatewayStats (recordTransaction st g succ a b c) g b)
         \<and> of_nat (successCount (getGatewayStats (recordTransaction st g succ a b c) g b))
             / of_nat (totalRequests (getGatewayStats (recordTransaction st g succ a b c) g b))
             < SUCCESS_RATE_THRESHOLD
      then Some (c + UNHEALTHY_COOLDOWN_MINUTES * 60 * 1000)
      else disabledGateways st g)"
proof (cases succ)
  case True
  then show ?thesis by (simp add: recordTransaction_def Let_def)
next
  case False
  define st1 where
    "st1 = st\<lparr>gatewayTransactions := (gatewayTransactions st)
              (g \<mapsto> historyOf st g @ [\<lparr>timestamp = a, success = succ\<rparr>])\<rparr>"
  have r: "recordTransaction st g succ a b c = checkAndUpdateHealth st1 g b c"
    using False by (simp add: recordTransaction_def Let_def st1_def)
  have s: "getGatewayStats (checkAndUpdateHealth st1 g b c) g b = getGatewayStats st1 g b"
    by (rule getGatewayStats_cong) (simp add: transactions_checkAndUpdateHealth)
  have d: "disabledGateways st1 = disabledGateways st" by (simp add: st1_def)
  show ?thesis
    unfolding r s using False
    by (simp add: checkAndUpdateHealth_def Let_def d not_less)
qed

lemma fst_isGatewayHealthy:
  "fst (isGatewayHealthy st g now) =
     (case disabledGateways st g of None \<Rightarrow> True | Some until \<Rightarrow> until < now)"
  by (simp add: isGatewayHealthy_def split: option.splits)

lemma fourFailures_state:
  "historyOf fourFailures ''razorpay'' =
     [\<lparr>timestamp = 1000, success = False\<rparr>, \<lparr>timestamp = 2000, success = False\<rparr>,
      \<lparr>timestamp = 3000, success = False\<rparr>, \<lparr>timestamp = 4000, success = False\<rparr>]"
  "disabledGateways fourFailures = Map.empty"
  by (simp_all add: fourFailures_def health_eval)

lemma oneSuccessThreeFailures_state:
  "historyOf oneSuccessThreeFailures ''razorpay'' =
     [\<lparr>timestamp = 1000, success = True\<rparr>, \<lparr>timestamp = 2000, success = False\<rparr>,
      \<lparr>timestamp = 3000, success = False\<rparr>, \<lparr>timestamp = 4000, success = False\<rparr>]"
  "disabledGateways oneSuccessThreeFailures = Map.empty"
  by (simp_all add: oneSuccessThreeFailures_def health_eval)

lemma fourUnknownFailures_state:
  "historyOf fourUnknownFailures ''stripe'' =
     [\<lparr>timestamp = 1000, success = False\<rparr>, \<lparr>timestamp = 2000, success = False\<rparr>,
      \<lparr>timestamp = 3000, success = False\<rparr>, \<lparr>timestamp = 4000, success = False\<rparr>]"
  "disabledGateways fourUnknownFailures = Map.empty"
  by (simp_all add: fourUnknownFailures_def health_eval)




subsection \<open>The healthy set\<close>

lemma isGatewayHealthy_verdict_stable:
  "fst (isGatewayHealthy (snd (isGatewayHealthy st g now)) g' now)
     = fst (isGatewayHealthy st g' now)"
  by (auto simp add: isGatewayHealthy_def split: option.splits)

lemma getHealthyGateways_names:
  "\<forall>c \<in> set cfg. fst (isGatewayHealthy st (name c) now) = fst (isGatewayHealthy st0 (name c) now)
   \<Longrightarrow> fst (getHealthyGateways cfg st now)
        = map name (filter (\<lambda>c. enabled c \<and> fst (isGatewayHealthy st0 (name c) now)) cfg)"
proof (induction cfg arbitrary: st)
  case Nil
  then show ?case by simp
next
  case (Cons c cs)
  show ?case
  proof (cases "enabled c")
    case False
    with Cons show ?thesis by simp
  next
    case True
    obtain h st1 where hs: "isGatewayHealthy st (name c) now = (h, st1)"
      by (cases "isGatewayHealthy st (name c) now")
    obtain ns st2 where rs: "getHealthyGateways cs st1 now = (ns, st2)"
      by (cases "getHealthyGateways cs st1 now")
    have st1: "st1 = snd (isGatewayHealthy st (name c) now)" and h: "h = fst (isGatewayHealthy st (name c) now)"
      using hs by simp_all
    have "\<forall>d \<in> set cs. fst (isGatewayHealthy st1 (name d) now) = fst (isGatewayHealthy st0 (name d) now)"
      using Cons.prems by (simp add: st1 isGatewayHealthy_verdict_stable)
    from Cons.IH [OF this] rs
    have ns: "ns = map name (filter (\<lambda>c. enabled c \<and> fst (isGatewayHealthy st0 (name c) now)) cs)"
      by simp
    have h0: "h = fst (isGatewayHealthy st0 (name c) now)"
      using Cons.prems h by simp
    show ?thesis
      using True hs rs ns h0 by simp
  qed
qed

lemma set_getHealthyGateways:
  "set (fst (getHealthyGateways cfg st now))
     = {name c | c. c \<in> set cfg \<and> enabled c \<and> fst (isGatewayHealthy st (name c) now)}"
  by (subst getHealthyGateways_names [where ?st0.0 = st]) auto


subsection \<open>Windowed statistics\<close>

text \<open>
  Claim C9.  For every gateway name, the health report counts exactly the stored outcome
  records whose timestamp is at least the clock reading minus the health window of
  fifteen minutes: the total, the successes and the failures are the numbers of
  positions of the history that lie in the window (and succeed, respectively fail).  The
  success rate is the quotient of successes by total when the total is positive, and
  exactly 1 when no record lies in the window.
\<close>

theorem windowed_stats:
  "totalRequests_h (fst (getGatewayHealth st g now now_health))
     = card {i. i < length (historyOf st g)
                \<and> timestamp (historyOf st g ! i) \<ge> now - HEALTH_CHECK_WINDOW_MINUTES * 60 * 1000}
   \<and> successCount_h (fst (getGatewayHealth st g now now_health))
     = card {i. i < length (historyOf st g)
                \<and> timestamp (historyOf st g ! i) \<ge> now - HEALTH_CHECK_WINDOW_MINUTES * 60 * 1000
                \<and> success (historyOf st g ! i)}
   \<and> failureCount_h (fst (getGatewayHealth st g now now_health))
     = card {i. i < length (historyOf st g)
                \<and> timestamp (historyOf st g ! i) \<ge> now - HEALTH_CHECK_WINDOW_MINUTES * 60 * 1000
                \<and> \<not> success (historyOf st g ! i)}
   \<and> successRate (fst (getGatewayHealth st g now now_health))
     = (if totalRequests_h (fst (getGatewayHealth st g now now_health)) > 0
        then of_nat (successCount_h (fst (getGatewayHealth st g now now_health)))
               / of_nat (totalRequests_h (fst (getGatewayHealth st g now now_health)))
        else 1)"
  unfolding fst_getGatewayHealth getGatewayStats_def Let_def
  by (simp add: length_filter_conv_card conj_commute conj_left_commute cong: conj_cong)

text \<open>At the clock reading 2000000 two of the four outcomes of \<open>razorpay\<close> lie in the
  window, one of them a success; \<open>payu\<close> has no traffic and the rate 1.\<close>

theorem windowed_stats_witness:
  "successRate (fst (getGatewayHealth agedHealth ''razorpay'' 2000000 2000000)) = 1 / 2
   \<and> card {i. i < length (historyOf agedHealth ''razorpay'')
              \<and> timestamp (historyOf agedHealth ''razorpay'' ! i)
                   \<ge> 2000000 - HEALTH_CHECK_WINDOW_MINUTES * 60 * 1000} = 2
   \<and> successRate (fst (getGatewayHealth agedHealth ''payu'' 2000000 2000000)) = 1"
proof -
  have r: "getGatewayStats agedHealth ''razorpay'' 2000000 =
     \<lparr>totalRequests = 2, successCount = 1, failureCount = 1,
      lastFailureTime = Some 1500000, windowStartTime = 1100000\<rparr>"
    unfolding getGatewayStats_def agedHealth_history Let_def
    by (simp add: HEALTH_CHECK_WINDOW_MINUTES_def)
  have p: "totalRequests (getGatewayStats agedHealth ''payu'' 2000000) = 0"
    by (simp add: agedHealth_def health_eval)
  show ?thesis
    using windowed_stats [of agedHealth "''razorpay''" 2000000 2000000]
      windowed_stats [of agedHealth "''payu''" 2000000 2000000]
    by (simp add: fst_getGatewayHealth r p)
qed


subsection \<open>Pruning\<close>

lemma historyOf_cleanup:
  "historyOf (cleanupOldRecords st now) g =
     filter (\<lambda>t. timestamp t \<ge> now - HEALTH_CHECK_WINDOW_MINUTES * 2 * 60 * 1000) (historyOf st g)"
  by (simp add: historyOf_def cleanupOldRecords_def split: option.splits)

lemma filter_window_cleanup:
  assumes "t_clean \<le> t_stats"
  shows "filter (\<lambda>t. timestamp t \<ge> t_stats - HEALTH_CHECK_WINDOW_MINUTES * 60 * 1000)
           (filter (\<lambda>t. timestamp t \<ge> t_clean - HEALTH_CHECK_WINDOW_MINUTES * 2 * 60 * 1000) xs)
         = filter (\<lambda>t. timestamp t \<ge> t_stats - HEALTH_CHECK_WINDOW_MINUTES * 60 * 1000) xs"
proof -
  have "\<And>t. t_stats - HEALTH_CHECK_WINDOW_MINUTES * 60 * 1000 \<le> timestamp t \<Longrightarrow>
         t_clean - HEALTH_CHECK_WINDOW_MINUTES * 2 * 60 * 1000 \<le> timestamp t"
    using assms by (simp add: HEALTH_CHECK_WINDOW_MINUTES_def)
  then show ?thesis
    by (induction xs) auto
qed

lemma getGatewayStats_cleanup:
  assumes "t_clean \<le> t_stats"
  shows "getGatewayStats (cleanupOldRecords st t_clean) g t_stats = getGatewayStats st g t_stats"
  unfolding getGatewayStats_def historyOf_cleanup Let_def
  by (simp only: filter_window_cleanup [OF assms])

lemma isGatewayHealthy_cleanup:
  "fst (isGatewayHealthy (cleanupOldRecords st t) g now) = fst (isGatewayHealthy st g now)"
  by (simp add: isGatewayHealthy_def cleanupOldRecords_def split: option.splits)

text \<open>
  Claim C10.  For every state of the histories and every gateway name: when
  \<open>cleanupOldRecords\<close> runs at the clock reading \<open>t_clean\<close> and the statistics are read at
  a reading \<open>t_stats\<close> that is not earlier, the windowed statistics and the health report
  are those that the same read returns without the cleanup.
\<close>

theorem pruning_observation_invariant:
  assumes "t_clean \<le> t_stats"
  shows "getGatewayStats (cleanupOldRecords st t_clean) g t_stats = getGatewayStats st g t_stats
       \<and> fst (getGatewayHealth (cleanupOldRecords st t_clean) g t_stats t_health)
           = fst (getGatewayHealth st g t_stats t_health)"
proof -
  have d: "disabledGateways (cleanupOldRecords st t_clean) = disabledGateways st"
    by (simp add: cleanupOldRecords_def)
  show ?thesis
    by (simp add: fst_getGatewayHealth getGatewayStats_cleanup [OF assms] d
        isGatewayHealthy_cleanup)
qed

text \<open>A cleanup at 2000000 does drop records of \<open>razorpay\<close>, and the statistics read at
  the same reading do not change.\<close>

theorem pruning_observation_invariant_witness:
  "(2000000::int) \<le> 2000000
   \<and> historyOf (cleanupOldRecords agedHealth 2000000) ''razorpay'' \<noteq> historyOf agedHealth ''razorpay''
   \<and> getGatewayStats (cleanupOldRecords agedHealth 2000000) ''razorpay'' 2000000
       = getGatewayStats agedHealth ''razorpay'' 2000000
   \<and> totalRequests (getGatewayStats agedHealth ''razorpay'' 2000000) = 2"
proof -
  have le: "(2000000::int) \<le> 2000000" by simp
  have a: "historyOf (cleanupOldRecords agedHealth 2000000) ''razorpay''
             \<noteq> historyOf agedHealth ''razorpay''"
    by (simp add: historyOf_cleanup agedHealth_history HEALTH_CHECK_WINDOW_MINUTES_def)
  have b: "totalRequests (getGatewayStats agedHealth ''razorpay'' 2000000) = 2"
    unfolding getGatewayStats_def agedHealth_history Let_def
    by (simp add: HEALTH_CHECK_WINDOW_MINUTES_def)
  show ?thesis
    using pruning_observation_invariant [OF le, of agedHealth "''razorpay''" 2000000] a b le
    by simp
qed


subsection \<open>Lazy expiry of the disable window\<close>

text \<open>
  Claim C4, as stated: a gateway is reported unhealthy exactly when a disabled-until
  timestamp is set and strictly in the future.  It fails at the instant of expiry:
  \<open>razorpay\<close>, disabled at 0 for 30 minutes, carries the timestamp 1800000; read at
  1800000 that timestamp is not strictly in the future, and the gateway is still
  reported unhealthy.
\<close>

theorem lazy_expiry_counterexample:
  "disabledGateways (disableGateway freshHealth ''razorpay'' 30 0) ''razorpay'' = Some 1800000
   \<and> \<not> (1800000 < (1800000::int))
   \<and> fst (isGatewayHealthy (disableGateway freshHealth ''razorpay'' 30 0) ''razorpay'' 1800000)
       = False"
  by (simp add: health_eval)

text \<open>
  Claim C4, amended.  For every gateway name and clock reading \<open>now\<close>, \<open>isGatewayHealthy\<close>
  reports the gateway unhealthy if and only if a disabled-until timestamp is set and
  \<open>now\<close> has not passed it (\<open>now \<le> until\<close>).  When the stored timestamp has elapsed
  (\<open>until < now\<close>), the read removes it and reports the gateway healthy; otherwise the
  read leaves the state as it is.
\<close>

theorem lazy_expiry:
  "(\<not> fst (isGatewayHealthy st g now)) = (\<exists>until. disabledGateways st g = Some until \<and> now \<le> until)
   \<and> (\<forall>until. disabledGateways st g = Some until \<and> until < now \<longrightarrow>
         isGatewayHealthy st g now
           = (True, st\<lparr>disabledGateways := (disabledGateways st)(g := None)\<rparr>)
         \<and> disabledGateways (snd (isGatewayHealthy st g now)) g = None)
   \<and> ((\<forall>until. disabledGateways st g = Some until \<longrightarrow> now \<le> until) \<longrightarrow>
         snd (isGatewayHealthy st g now) = st)"
  by (auto simp add: isGatewayHealthy_def split: option.splits)

theorem lazy_expiry_witness:
  "disabledGateways (disableGateway freshHealth ''razorpay'' 30 0) ''razorpay'' = Some 1800000
   \<and> (1800000::int) < 1800001
   \<and> fst (isGatewayHealthy (disableGateway freshHealth ''razorpay'' 30 0) ''razorpay'' 1800001)
   \<and> disabledGateways
        (snd (isGatewayHealthy (disableGateway freshHealth ''razorpay'' 30 0) ''razorpay'' 1800001))
        ''razorpay'' = None
   \<and> \<not> fst (isGatewayHealthy (disableGateway freshHealth ''razorpay'' 30 0) ''razorpay'' 1799999)
   \<and> snd (isGatewayHealthy (disableGateway freshHealth ''razorpay'' 30 0) ''razorpay'' 1799999)
       = disableGateway freshHealth ''razorpay'' 30 0"
proof -
  have d: "disabledGateways (disableGateway freshHealth ''razorpay'' 30 0) ''razorpay''
             = Some 1800000"
    by (simp add: health_eval)
  show ?thesis
    using lazy_expiry [of "disableGateway freshHealth ''razorpay'' 30 0" "''razorpay''" 1800001]
      lazy_expiry [of "disableGateway freshHealth ''razorpay'' 30 0" "''razorpay''" 1799999] d
    by simp
qed

subsection \<open>The trip rule of the circuit breaker\<close>

text \<open>
  Claim C1, as stated: once exactly five outcomes lie in the window with a success rate
  below the threshold, the gateway becomes unhealthy.  It fails when the outcome that
  completes the sample is a success: after four failures and then one success of
  \<open>razorpay\<close>, five outcomes lie in the window, the success rate is 1/5, and the gateway
  has no disabled-until timestamp and is reported healthy.
\<close>

theorem trip_rule_counterexample:
  "totalRequests (getGatewayStats (recordTransaction fourFailures ''razorpay'' True 5000 5000 5000)
       ''razorpay'' 5000) = MIN_REQUESTS_FOR_HEALTH_CHECK
   \<and> successRate (fst (getGatewayHealth
         (recordTransaction fourFailures ''razorpay'' True 5000 5000 5000) ''razorpay'' 5000 5000))
       < SUCCESS_RATE_THRESHOLD
   \<and> disabledGateways (recordTransaction fourFailures ''razorpay'' True 5000 5000 5000)
        ''razorpay'' = None
   \<and> fst (isGatewayHealthy (recordTransaction fourFailures ''razorpay'' True 5000 5000 5000)
        ''razorpay'' 5000)"
proof -
  let ?st = "recordTransaction fourFailures ''razorpay'' True 5000 5000 5000"
  have h: "historyOf ?st ''razorpay'' =
     [\<lparr>timestamp = 1000, success = False\<rparr>, \<lparr>timestamp = 2000, success = False\<rparr>,
      \<lparr>timestamp = 3000, success = False\<rparr>, \<lparr>timestamp = 4000, success = False\<rparr>,
      \<lparr>timestamp = 5000, success = True\<rparr>]"
    by (simp add: historyOf_recordTransaction fourFailures_state)
  have d: "disabledGateways ?st = Map.empty"
    by (simp add: recordTransaction_def Let_def fourFailures_state)
  have s: "getGatewayStats ?st ''razorpay'' 5000 =
     \<lparr>totalRequests = 5, successCount = 1, failureCount = 4,
      lastFailureTime = Some 4000, windowStartTime = - 895000\<rparr>"
    unfolding getGatewayStats_def h Let_def
    by (simp add: HEALTH_CHECK_WINDOW_MINUTES_def)
  show ?thesis
    by (simp add: s d fst_getGatewayHealth isGatewayHealthy_def
        MIN_REQUESTS_FOR_HEALTH_CHECK_def SUCCESS_RATE_THRESHOLD_def)
qed

text \<open>
  Claim C1, amended.  Let \<open>stats\<close> be the windowed statistics of the gateway right after
  an outcome is recorded (the new record included).  If the recorded outcome is a
  failure, at least \<open>MIN_REQUESTS_FOR_HEALTH_CHECK\<close> (5) outcomes lie in the window -- in
  particular exactly 5 -- and their success rate is below \<open>SUCCESS_RATE_THRESHOLD\<close> (0.9),
  then the disabled-until timestamp of the gateway is the clock reading plus the cooldown
  of \<open>UNHEALTHY_COOLDOWN_MINUTES\<close> (30) minutes, and the gateway is reported unhealthy at
  every reading up to that instant.  If fewer than 5 outcomes lie in the window, or the
  recorded outcome is a success, or the rate is not below the threshold, no
  disabled-until timestamp changes.
\<close>

theorem trip_rule:
  assumes "st' = recordTransaction st g succ now_rec now_stats now_trip"
    and "stats = getGatewayStats st' g now_stats"
  shows "(\<not> succ \<and> totalRequests stats \<ge> MIN_REQUESTS_FOR_HEALTH_CHECK
          \<and> of_nat (successCount stats) / of_nat (totalRequests stats) < SUCCESS_RATE_THRESHOLD
          \<longrightarrow> disabledGateways st' g = Some (now_trip + UNHEALTHY_COOLDOWN_MINUTES * 60 * 1000)
              \<and> (\<forall>now \<le> now_trip + UNHEALTHY_COOLDOWN_MINUTES * 60 * 1000.
                    \<not> fst (isGatewayHealthy st' g now)))
       \<and> (succ \<or> totalRequests stats < MIN_REQUESTS_FOR_HEALTH_CHECK
          \<or> \<not> of_nat (successCount stats) / of_nat (totalRequests stats) < SUCCESS_RATE_THRESHOLD
          \<longrightarrow> disabledGateways st' = disabledGateways st)"
proof (cases succ)
  case True
  then have "disabledGateways st' = disabledGateways st"
    by (simp add: assms(1) recordTransaction_def Let_def)
  with True show ?thesis by simp
next
  case False
  define st1 where
    "st1 = st\<lparr>gatewayTransactions := (gatewayTransactions st)
              (g \<mapsto> historyOf st g @ [\<lparr>timestamp = now_rec, success = succ\<rparr>])\<rparr>"
  have rf: "st' = checkAndUpdateHealth st1 g now_stats now_trip"
    using False by (simp add: assms(1) recordTransaction_def Let_def st1_def)
  have sf: "stats = getGatewayStats st1 g now_stats"
    unfolding assms(2) rf
    by (rule getGatewayStats_cong) (simp add: transactions_checkAndUpdateHealth)
  have d1: "disabledGateways st1 = disabledGateways st"
    by (simp add: st1_def)
  have trip: "totalRequests stats \<ge> MIN_REQUESTS_FOR_HEALTH_CHECK
      \<and> of_nat (successCount stats) / of_nat (totalRequests stats) < SUCCESS_RATE_THRESHOLD
      \<Longrightarrow> disabledGateways st' g = Some (now_trip + UNHEALTHY_COOLDOWN_MINUTES * 60 * 1000)"
    by (simp add: rf sf checkAndUpdateHealth_def Let_def)
  have keep: "totalRequests stats < MIN_REQUESTS_FOR_HEALTH_CHECK
      \<or> \<not> of_nat (successCount stats) / of_nat (totalRequests stats) < SUCCESS_RATE_THRESHOLD
      \<Longrightarrow> disabledGateways st' = disabledGateways st"
    by (auto simp add: rf sf checkAndUpdateHealth_def Let_def d1)
  have unhealthy: "\<And>u now. disabledGateways st' g = Some u \<Longrightarrow> now \<le> u \<Longrightarrow>
              \<not> fst (isGatewayHealthy st' g now)"
    by (simp add: fst_isGatewayHealthy)
  show ?thesis
    using False trip keep unhealthy by blast
qed

text \<open>One success and then four failures: the fifth outcome, a failure at 5000, trips
  the breaker until 1805000.  One success and one failure: the gateway stays healthy.\<close>

theorem trip_rule_witness:
  "totalRequests (getGatewayStats
       (recordTransaction oneSuccessThreeFailures ''razorpay'' False 5000 5000 5000)
       ''razorpay'' 5000) = 5
   \<and> disabledGateways (recordTransaction oneSuccessThreeFailures ''razorpay'' False 5000 5000 5000)
        ''razorpay'' = Some 1805000
   \<and> \<not> fst (isGatewayHealthy
        (recordTransaction oneSuccessThreeFailures ''razorpay'' False 5000 5000 5000)
        ''razorpay'' 6000)
   \<and> totalRequests (getGatewayStats
       (recordTransaction (recordTransaction freshHealth ''payu'' True 1000 1000 1000)
          ''payu'' False 2000 2000 2000) ''payu'' 2000) = 2
   \<and> disabledGateways
       (recordTransaction (recordTransaction freshHealth ''payu'' True 1000 1000 1000)
          ''payu'' False 2000 2000 2000)
       = disabledGateways (recordTransaction freshHealth ''payu'' True 1000 1000 1000)"
proof -
  let ?a = "recordTransaction oneSuccessThreeFailures ''razorpay'' False 5000 5000 5000"
  let ?p1 = "recordTransaction freshHealth ''payu'' True 1000 1000 1000"
  let ?p2 = "recordTransaction ?p1 ''payu'' False 2000 2000 2000"
  have ha: "historyOf ?a ''razorpay'' =
     [\<lparr>timestamp = 1000, success = True\<rparr>, \<lparr>timestamp = 2000, success = False\<rparr>,
      \<lparr>timestamp = 3000, success = False\<rparr>, \<lparr>timestamp = 4000, success = False\<rparr>,
      \<lparr>timestamp = 5000, success = False\<rparr>]"
    by (simp add: historyOf_recordTransaction oneSuccessThreeFailures_state)
  have sa: "getGatewayStats ?a ''razorpay'' 5000 =
     \<lparr>totalRequests = 5, successCount = 1, failureCount = 4,
      lastFailureTime = Some 5000, windowStartTime = - 895000\<rparr>"
    unfolding getGatewayStats_def ha Let_def
    by (simp add: HEALTH_CHECK_WINDOW_MINUTES_def)
  have hp: "historyOf ?p2 ''payu'' =
     [\<lparr>timestamp = 1000, success = True\<rparr>, \<lparr>timestamp = 2000, success = False\<rparr>]"
    by (simp add: historyOf_recordTransaction)
       (simp add: historyOf_def freshHealth_def newGatewayHealthService_def GATEWAY_CONFIG_def)
  have sp: "getGatewayStats ?p2 ''payu'' 2000 =
     \<lparr>totalRequests = 2, successCount = 1, failureCount = 1,
      lastFailureTime = Some 2000, windowStartTime = - 898000\<rparr>"
    unfolding getGatewayStats_def hp Let_def
    by (simp add: HEALTH_CHECK_WINDOW_MINUTES_def)
  show ?thesis
    using trip_rule [OF refl refl, where st = oneSuccessThreeFailures and g = "''razorpay''"
          and succ = False and now_rec = 5000 and now_stats = 5000 and now_trip = 5000]
      trip_rule [OF refl refl, where st = ?p1 and g = "''payu''"
          and succ = False and now_rec = 2000 and now_stats = 2000 and now_trip = 2000]
    by (simp add: sa sp MIN_REQUESTS_FOR_HEALTH_CHECK_def SUCCESS_RATE_THRESHOLD_def
        UNHEALTHY_COOLDOWN_MINUTES_def)
qed


subsection \<open>Recording under an unrecognised name\<close>

text \<open>
  Claim C5, as stated: recording under a name that is not configured changes no history
  and no disabled-until timestamp.  It fails: \<open>stripe\<close> is not configured, the fresh
  tracker has no history for it, and one recorded outcome creates a history with that
  record; after four failures a fifth failure gives \<open>stripe\<close> a disabled-until
  timestamp.
\<close>

theorem record_unknown_counterexample:
  "\<not> isValidGateway GATEWAY_CONFIG ''stripe''
   \<and> gatewayTransactions freshHealth ''stripe'' = None
   \<and> gatewayTransactions (recordTransaction freshHealth ''stripe'' True 1000 1000 1000) ''stripe''
       = Some [\<lparr>timestamp = 1000, success = True\<rparr>]
   \<and> disabledGateways fourUnknownFailures ''stripe'' = None
   \<and> disabledGateways (recordTransaction fourUnknownFailures ''stripe'' False 5000 5000 5000)
        ''stripe'' = Some 1805000"
proof -
  have a: "\<not> isValidGateway GATEWAY_CONFIG ''stripe''"
    by (simp add: isValidGateway_def GATEWAY_CONFIG_def)
  have b: "gatewayTransactions freshHealth ''stripe'' = None"
    by (simp add: freshHealth_def newGatewayHealthService_def GATEWAY_CONFIG_def)
  have c: "gatewayTransactions (recordTransaction freshHealth ''stripe'' True 1000 1000 1000)
             ''stripe'' = Some [\<lparr>timestamp = 1000, success = True\<rparr>]"
    by (simp add: transactions_recordTransaction historyOf_def b)
  have d: "disabledGateways (recordTransaction fourUnknownFailures ''stripe'' False 5000 5000 5000)
        ''stripe'' = Some 1805000"
    unfolding recordTransaction_def checkAndUpdateHealth_def getGatewayStats_def Let_def
    by (simp add: fourUnknownFailures_state historyOf_def [of "_\<lparr>gatewayTransactions := _\<rparr>"]
        HEALTH_CHECK_WINDOW_MINUTES_def UNHEALTHY_COOLDOWN_MINUTES_def
        SUCCESS_RATE_THRESHOLD_def MIN_REQUESTS_FOR_HEALTH_CHECK_def)
  show ?thesis
    using a b c d by (simp add: fourUnknownFailures_state)
qed

text \<open>
  Claim C5, amended.  For every name \<open>gw\<close> that is not configured and every flag,
  \<open>recordTransaction\<close> leaves the history and the disabled-until timestamp of every other
  name unchanged, in particular those of every configured gateway, and the list of
  healthy gateways is the same before and after.  Under \<open>gw\<close> itself the outcome is
  stored: after the call \<open>gw\<close> has a history, which is its earlier history (empty when it
  had none) followed by the new record.  And it is evaluated like that of any gateway:
  after a failure that leaves at least \<open>MIN_REQUESTS_FOR_HEALTH_CHECK\<close> outcomes of \<open>gw\<close>
  in the window with a success rate below \<open>SUCCESS_RATE_THRESHOLD\<close>, the disabled-until
  timestamp of \<open>gw\<close> is the clock reading plus the cooldown; otherwise it is unchanged.
\<close>

theorem record_unknown_frame:
  assumes "\<not> isValidGateway cfg gw"
  shows "(\<forall>g. g \<noteq> gw \<longrightarrow>
            gatewayTransactions (recordTransaction st gw succ now_rec now_stats now_trip) g
              = gatewayTransactions st g
          \<and> disabledGateways (recordTransaction st gw succ now_rec now_stats now_trip) g
              = disabledGateways st g)
       \<and> (\<forall>c \<in> set cfg.
            gatewayTransactions (recordTransaction st gw succ now_rec now_stats now_trip) (name c)
              = gatewayTransactions st (name c)
          \<and> disabledGateways (recordTransaction st gw succ now_rec now_stats now_trip) (name c)
              = disabledGateways st (name c))
       \<and> fst (getHealthyGateways cfg
                (recordTransaction st gw succ now_rec now_stats now_trip) now)
           = fst (getHealthyGateways cfg st now)
       \<and> gatewayTransactions (recordTransaction st gw succ now_rec now_stats now_trip) gw
           = Some (historyOf st gw @ [\<lparr>timestamp = now_rec, success = succ\<rparr>])
       \<and> disabledGateways (recordTransaction st gw succ now_rec now_stats now_trip) gw
           = (if \<not> succ
                 \<and> MIN_REQUESTS_FOR_HEALTH_CHECK
                     \<le> totalRequests (getGatewayStats
                          (recordTransaction st gw succ now_rec now_stats now_trip) gw now_stats)
                 \<and> of_nat (successCount (getGatewayStats
                          (recordTransaction st gw succ now_rec now_stats now_trip) gw now_stats))
                     / of_nat (totalRequests (getGatewayStats
                          (recordTransaction st gw succ now_rec now_stats now_trip) gw now_stats))
                     < SUCCESS_RATE_THRESHOLD
              then Some (now_trip + UNHEALTHY_COOLDOWN_MINUTES * 60 * 1000)
              else disabledGateways st gw)"
proof -
  let ?st' = "recordTransaction st gw succ now_rec now_stats now_trip"
  have other: "\<And>g. g \<noteq> gw \<Longrightarrow>
        gatewayTransactions ?st' g = gatewayTransactions st g
      \<and> disabledGateways ?st' g = disabledGateways st g"
    by (simp add: transactions_recordTransaction)
      (simp add: recordTransaction_def Let_def disabled_checkAndUpdateHealth_other)
  have ne: "\<And>c. c \<in> set cfg \<Longrightarrow> name c \<noteq> gw"
    using assms by (auto simp add: isValidGateway_def list_ex_iff)
  have verdict: "\<forall>c \<in> set cfg. fst (isGatewayHealthy ?st' (name c) now)
                    = fst (isGatewayHealthy st (name c) now)"
    using other ne by (simp add: fst_isGatewayHealthy)
  have healthy: "fst (getHealthyGateways cfg ?st' now) = fst (getHealthyGateways cfg st now)"
    using getHealthyGateways_names [OF verdict]
      getHealthyGateways_names [of cfg st now st] by simp
  have stored: "gatewayTransactions ?st' gw
                  = Some (historyOf st gw @ [\<lparr>timestamp = now_rec, success = succ\<rparr>])"
    by (simp add: transactions_recordTransaction)
  have frame: "(\<forall>g. g \<noteq> gw \<longrightarrow>
            gatewayTransactions ?st' g = gatewayTransactions st g
          \<and> disabledGateways ?st' g = disabledGateways st g)
       \<and> (\<forall>c \<in> set cfg.
            gatewayTransactions ?st' (name c) = gatewayTransactions st (name c)
          \<and> disabledGateways ?st' (name c) = disabledGateways st (name c))"
    using other ne by simp
  show ?thesis
    using frame healthy stored
      disabled_recordTransaction_self [of st gw succ now_rec now_stats now_trip]
    by (simp only: simp_thms)
qed

text \<open>The fifth failure recorded under \<open>stripe\<close> at 5000 is appended to the history of
  \<open>stripe\<close> and disables it until 1805000; \<open>razorpay\<close> and the healthy gateways are as
  before.\<close>

theorem record_unknown_frame_witness:
  "\<not> isValidGateway GATEWAY_CONFIG ''stripe''
   \<and> ''razorpay'' \<noteq> ''stripe''
   \<and> gatewayTransactions (recordTransaction fourUnknownFailures ''stripe'' False 5000 5000 5000)
        ''razorpay'' = gatewayTransactions fourUnknownFailures ''razorpay''
   \<and> disabledGateways (recordTransaction fourUnknownFailures ''stripe'' False 5000 5000 5000)
        ''razorpay'' = disabledGateways fourUnknownFailures ''razorpay''
   \<and> fst (getHealthyGateways GATEWAY_CONFIG
            (recordTransaction fourUnknownFailures ''stripe'' False 5000 5000 5000) 5000)
       = fst (getHealthyGateways GATEWAY_CONFIG fourUnknownFailures 5000)
   \<and> gatewayTransactions (recordTransaction fourUnknownFailures ''stripe'' False 5000 5000 5000)
        ''stripe''
       = Some [\<lparr>timestamp = 1000, success = False\<rparr>, \<lparr>timestamp = 2000, success = False\<rparr>,
               \<lparr>timestamp = 3000, success = False\<rparr>, \<lparr>timestamp = 4000, success = False\<rparr>,
               \<lparr>timestamp = 5000, success = False\<rparr>]
   \<and> disabledGateways (recordTransaction fourUnknownFailures ''stripe'' False 5000 5000 5000)
        ''stripe'' = Some 1805000"
proof -
  let ?st' = "recordTransaction fourUnknownFailures ''stripe'' False 5000 5000 5000"
  have v: "\<not> isValidGateway GATEWAY_CONFIG ''stripe''"
    by (simp add: isValidGateway_def GATEWAY_CONFIG_def)
  have n: "''razorpay'' \<noteq> ''stripe''" by simp
  have h: "historyOf ?st' ''stripe'' =
     [\<lparr>timestamp = 1000, success = False\<rparr>, \<lparr>timestamp = 2000, success = False\<rparr>,
      \<lparr>timestamp = 3000, success = False\<rparr>, \<lparr>timestamp = 4000, success = False\<rparr>,
      \<lparr>timestamp = 5000, success = False\<rparr>]"
    by (simp add: historyOf_recordTransaction fourUnknownFailures_state)
  have s: "getGatewayStats ?st' ''stripe'' 5000 =
     \<lparr>totalRequests = 5, successCount = 0, failureCount = 5,
      lastFailureTime = Some 5000, windowStartTime = - 895000\<rparr>"
    unfolding getGatewayStats_def h Let_def
    by (simp add: HEALTH_CHECK_WINDOW_MINUTES_def)
  note T = record_unknown_frame [OF v, where st = fourUnknownFailures and succ = False
      and now_rec = 5000 and now_stats = 5000 and now_trip = 5000 and now = 5000]
  note T1 = T [THEN conjunct1, rule_format, of "''razorpay''"]
  note T3 = T [THEN conjunct2, THEN conjunct2, THEN conjunct1]
  note T4 = T [THEN conjunct2, THEN conjunct2, THEN conjunct2, THEN conjunct1]
  note T5 = T [THEN conjunct2, THEN conjunct2, THEN conjunct2, THEN conjunct2]
  have a: "gatewayTransactions ?st' ''razorpay'' = gatewayTransactions fourUnknownFailures ''razorpay''
         \<and> disabledGateways ?st' ''razorpay'' = disabledGateways fourUnknownFailures ''razorpay''"
    using T1 [OF n] .
  have b: "fst (getHealthyGateways GATEWAY_CONFIG ?st' 5000)
             = fst (getHealthyGateways GATEWAY_CONFIG fourUnknownFailures 5000)"
    using T3 .
  have c: "gatewayTransactions ?st' ''stripe''
             = Some (historyOf fourUnknownFailures ''stripe''
                       @ [\<lparr>timestamp = 5000, success = False\<rparr>])"
    using T4 .
  have d: "disabledGateways ?st' ''stripe'' = Some 1805000"
    unfolding T5 s
    by (simp add: MIN_REQUESTS_FOR_HEALTH_CHECK_def SUCCESS_RATE_THRESHOLD_def
        UNHEALTHY_COOLDOWN_MINUTES_def)
  show ?thesis
    using v n a b c d by (simp only: fourUnknownFailures_state append.simps simp_thms)
qed


section \<open>Properties of the router\<close>

lemma walkGateways_mem: "walkGateways gs r c = Some g \<Longrightarrow> g \<in> set gs"
  by (induction gs arbitrary: c) (auto split: if_splits)

text \<open>With exact arithmetic the loop always breaks when the draw is at most the total
  weight, which is the case for \<open>Math.random() * totalWeight\<close> and a total weight that
  is not negative: the fallback after the loop is then never taken.\<close>

lemma walkGateways_hits:
  "gs \<noteq> [] \<Longrightarrow> r \<le> c + sum_list (map weight gs) \<Longrightarrow> walkGateways gs r c \<noteq> None"
proof (induction gs arbitrary: c)
  case Nil
  then show ?case by simp
next
  case (Cons g gs)
  show ?case
  proof (cases "r \<le> c + weight g")
    case True
    then show ?thesis by simp
  next
    case False
    then have "gs \<noteq> []" using Cons.prems(2) by auto
    moreover have "r \<le> (c + weight g) + sum_list (map weight gs)"
      using Cons.prems(2) by (simp add: add.assoc)
    ultimately show ?thesis using False Cons.IH [of "c + weight g"] by simp
  qed
qed

lemma foldl_total_weight:
  "foldl (\<lambda>sum g. sum + weight g) a gs = a + sum_list (map weight gs)"
  by (induction gs arbitrary: a) (simp_all add: add.assoc)

lemma loop_breaks_for_draw_in_range:
  assumes "healthyGateways \<noteq> []" and "0 \<le> rnd" and "rnd < 1"
    and "0 \<le> foldl (\<lambda>sum g. sum + weight g) 0 healthyGateways"
  shows "walkGateways healthyGateways
           (rnd * foldl (\<lambda>sum g. sum + weight g) 0 healthyGateways) 0 \<noteq> None"
proof -
  let ?W = "foldl (\<lambda>sum g. sum + weight g) 0 healthyGateways"
  have "rnd * ?W \<le> 1 * ?W"
    using assms(3,4) by (intro mult_right_mono) simp_all
  then have "rnd * ?W \<le> 0 + sum_list (map weight healthyGateways)"
    by (simp add: foldl_total_weight)
  then show ?thesis
    using walkGateways_hits [OF assms(1)] by blast
qed

lemma walkGateways_None:
  "(walkGateways gs r c = None)
     = (\<forall>k < length gs. c + sum_list (map weight (take (Suc k) gs)) < r)"
proof (induction gs arbitrary: c)
  case Nil
  then show ?case by simp
next
  case (Cons g gs)
  have "(\<forall>k < length (g # gs). c + sum_list (map weight (take (Suc k) (g # gs))) < r)
        = (c + weight g < r \<and> (\<forall>k < length gs. c + weight g + sum_list (map weight (take (Suc k) gs)) < r))"
    (is "?L = ?R")
  proof
    assume L: ?L
    have "c + weight g < r" using L [rule_format, of 0] by simp
    moreover have "\<forall>k < length gs. c + weight g + sum_list (map weight (take (Suc k) gs)) < r"
    proof (intro allI impI)
      fix k assume "k < length gs"
      then show "c + weight g + sum_list (map weight (take (Suc k) gs)) < r"
        using L [rule_format, of "Suc k"] by (simp add: add.assoc)
    qed
    ultimately show ?R by simp
  next
    assume R: ?R
    show ?L
    proof (intro allI impI)
      fix k assume k: "k < length (g # gs)"
      show "c + sum_list (map weight (take (Suc k) (g # gs))) < r"
      proof (cases k)
        case 0
        then show ?thesis using R by simp
      next
        case (Suc j)
        then show ?thesis using R k by (simp add: add.assoc)
      qed
    qed
  qed
  then show ?case using Cons.IH [of "c + weight g"] by (simp add: not_le)
qed

lemma pickGateway_mem:
  "gs \<noteq> [] \<Longrightarrow> \<exists>g \<in> set gs. pickGateway gs r = Some g"
  by (cases gs) (auto simp add: pickGateway_def split: option.splits dest: walkGateways_mem)

lemma healthy_configs_empty:
  "(filter (\<lambda>config. name config \<in> set (fst (getHealthyGateways cfg st now))) cfg = [])
     = ({name c | c. c \<in> set cfg \<and> enabled c \<and> fst (isGatewayHealthy st (name c) now)} = {})"
  unfolding set_getHealthyGateways by (auto simp add: filter_empty_conv)

lemma buildSelectionReason_prefix:
  "\<exists>rest. buildSelectionReason cfg pct sel hs tw = ''Selected '' @ name sel @ rest"
  by (simp add: buildSelectionReason_def Let_def)

lemma selectGateway_cases:
  fixes cfg st now
  defines "H \<equiv> {name c | c. c \<in> set cfg \<and> enabled c \<and> fst (isGatewayHealthy st (name c) now)}"
  shows "(H = {} \<longrightarrow> fst (selectGateway cfg pct st now rnd) = Inl NoHealthyGateways)
       \<and> (H \<noteq> {} \<longrightarrow> (\<exists>r. fst (selectGateway cfg pct st now rnd) = Inr r \<and> gateway_sel r \<in> H
                          \<and> (\<exists>rest. reason_sel r = ''Selected '' @ gateway_sel r @ rest)))"
proof -
  obtain ns st' where g: "getHealthyGateways cfg st now = (ns, st')"
    by (cases "getHealthyGateways cfg st now")
  define hs where "hs = filter (\<lambda>config. name config \<in> set ns) cfg"
  have ns: "set ns = H"
    using set_getHealthyGateways [of cfg st now] g by (simp add: H_def)
  have e: "(hs = []) = (H = {})"
    using healthy_configs_empty [of cfg st now] g by (simp add: hs_def H_def)
  have c: "getHealthyGatewayConfigs cfg st now = (hs, st')"
    by (simp add: getHealthyGatewayConfigs_def g hs_def)
  show ?thesis
  proof (cases "hs = []")
    case True
    then show ?thesis using e by (simp add: selectGateway_def c)
  next
    case False
    define r where "r = rnd * foldl (\<lambda>sum g. sum + weight g) 0 hs"
    obtain sel where sel: "sel \<in> set hs" "pickGateway hs r = Some sel"
      using pickGateway_mem [OF False] by blast
    have "name sel \<in> H" using sel(1) ns by (simp add: hs_def)
    then show ?thesis
      using False e sel(2) buildSelectionReason_prefix [of cfg pct sel hs]
      by (simp add: selectGateway_def c Let_def r_def)
  qed
qed


text \<open>The fallback branch itself takes index 0 of the healthy gateways.\<close>

lemma pickGateway_fallback_branch:
  "healthyGateways \<noteq> [] \<Longrightarrow> walkGateways healthyGateways random 0 = None \<Longrightarrow>
     pickGateway healthyGateways random = Some (hd healthyGateways)"
  by (cases healthyGateways) (simp_all add: pickGateway_def)



subsection \<open>The fallback of the weighted selection\<close>




subsection \<open>The error of the selection\<close>

text \<open>
  Claim C3.  The healthy set is the set of names of the configured gateways that are
  enabled and that \<open>isGatewayHealthy\<close> reports healthy at the clock reading of the call.
  \<open>selectGateway\<close> raises \<open>NoHealthyGateways\<close> if and only if the healthy set is empty;
  when it is not empty, \<open>selectGateway\<close> returns a result whose gateway name belongs to
  the healthy set, together with a rationale string that starts by naming the selected
  gateway.
\<close>

theorem select_error_iff_no_healthy:
  "(fst (selectGateway cfg pct st now rnd) = Inl NoHealthyGateways)
     = ({name c | c. c \<in> set cfg \<and> enabled c \<and> fst (isGatewayHealthy st (name c) now)} = {})
   \<and> ({name c | c. c \<in> set cfg \<and> enabled c \<and> fst (isGatewayHealthy st (name c) now)} \<noteq> {}
      \<longrightarrow> (\<exists>r. fst (selectGateway cfg pct st now rnd) = Inr r
               \<and> gateway_sel r \<in> {name c | c. c \<in> set cfg \<and> enabled c
                                       \<and> fst (isGatewayHealthy st (name c) now)}
               \<and> (\<exists>rest. reason_sel r = ''Selected '' @ gateway_sel r @ rest)))"
  using selectGateway_cases [of cfg st now pct rnd] by auto

text \<open>With every gateway disabled the selection fails; with only \<open>razorpay\<close> disabled
  it returns a healthy gateway.\<close>

theorem select_error_iff_no_healthy_witness:
  "{name c | c. c \<in> set GATEWAY_CONFIG \<and> enabled c
                \<and> fst (isGatewayHealthy allDisabled (name c) 1000)} = {}
   \<and> fst (selectGateway GATEWAY_CONFIG noPct allDisabled 1000 (1 / 2)) = Inl NoHealthyGateways
   \<and> ''payu'' \<in> {name c | c. c \<in> set GATEWAY_CONFIG \<and> enabled c
                \<and> fst (isGatewayHealthy razorpayDisabled (name c) 1000)}
   \<and> (\<exists>r. fst (selectGateway GATEWAY_CONFIG noPct razorpayDisabled
                  1000 (1 / 2)) = Inr r
          \<and> gateway_sel r \<in> {name c | c. c \<in> set GATEWAY_CONFIG \<and> enabled c
                \<and> fst (isGatewayHealthy razorpayDisabled (name c) 1000)})"
proof -
  have a: "{name c | c. c \<in> set GATEWAY_CONFIG \<and> enabled c
                \<and> fst (isGatewayHealthy allDisabled (name c) 1000)} = {}"
    by (auto simp add: allDisabled_def razorpayDisabled_def health_eval)
  have b: "''payu'' \<in> {name c | c. c \<in> set GATEWAY_CONFIG \<and> enabled c
                \<and> fst (isGatewayHealthy razorpayDisabled (name c) 1000)}"
    by (rule CollectI, rule exI [of _ "\<lparr>name = ''payu'', weight = 30, enabled = True\<rparr>"])
      (simp add: razorpayDisabled_def health_eval)
  then have c: "{name c | c. c \<in> set GATEWAY_CONFIG \<and> enabled c
                \<and> fst (isGatewayHealthy razorpayDisabled (name c) 1000)} \<noteq> {}"
    by blast
  show ?thesis
    using select_error_iff_no_healthy [of GATEWAY_CONFIG noPct allDisabled 1000 "1 / 2"]
      select_error_iff_no_healthy [of GATEWAY_CONFIG noPct
         "razorpayDisabled" 1000 "1 / 2"] a b c
    by blast
qed


lemma select_example:
  "fst (selectGateway GATEWAY_CONFIG noPct razorpayDisabled 1000 (1 / 2))
     = Inr \<lparr>gateway_sel = ''payu'',
            reason_sel = ''Selected payu via weighted routing (?% effective probability). Excluded unhealthy gateways: razorpay''\<rparr>"
  by (simp add: selectGateway_def getHealthyGatewayConfigs_def razorpayDisabled_def health_eval pickGateway_def
      buildSelectionReason_def noPct_def)


section \<open>Properties of the ledger\<close>

lemma select_fresh:
  "selectGateway GATEWAY_CONFIG noPct freshHealth 1000 (1 / 2)
     = (Inr \<lparr>gateway_sel = ''razorpay'',
             reason_sel = ''Selected razorpay via weighted routing (?% effective probability)''\<rparr>,
        freshHealth)"
  by (simp add: selectGateway_def getHealthyGatewayConfigs_def health_eval pickGateway_def
      buildSelectionReason_def noPct_def)

lemma pendingSystem_value:
  "pendingSystem =
     (Inr pendingTransaction,
      \<lparr>transactions = [''txn-1'' \<mapsto> pendingTransaction],
       orderToTransaction = [''ORD123'' \<mapsto> ''txn-1'']\<rparr>,
      freshHealth)"
  by (simp add: pendingSystem_def initiateTransaction_def pendingForOrder_def
      newTransactionsService_def cardDto_def select_fresh Let_def truthy_def
      sanitizePaymentInstrument_def cardInstrument_def pendingTransaction_def)

lemma paidSystem_value:
  "paidSystem =
     (Inr (pendingTransaction\<lparr>status := SUCCESS, updated_at := 2000\<rparr>),
      \<lparr>transactions = [''txn-1'' \<mapsto> pendingTransaction\<lparr>status := SUCCESS, updated_at := 2000\<rparr>],
       orderToTransaction = [''ORD123'' \<mapsto> ''txn-1'']\<rparr>,
      recordTransaction freshHealth ''razorpay'' True 2000 2000 2000)"
  by (simp add: paidSystem_def pendingSystem_value processCallback_def successCallback_def
      Let_def recordTransactionResult_def pendingTransaction_def truthy_def)

lemma pendingLedger_value:
  "pendingLedger = \<lparr>transactions = [''txn-1'' \<mapsto> pendingTransaction],
                     orderToTransaction = [''ORD123'' \<mapsto> ''txn-1'']\<rparr>"
  by (simp add: pendingLedger_def pendingSystem_value)

lemma paidLedger_value:
  "paidLedger =
     \<lparr>transactions = [''txn-1'' \<mapsto> pendingTransaction\<lparr>status := SUCCESS, updated_at := 2000\<rparr>],
      orderToTransaction = [''ORD123'' \<mapsto> ''txn-1'']\<rparr>"
  by (simp add: paidLedger_def paidSystem_value)

lemma paidHealth_value:
  "paidHealth = recordTransaction freshHealth ''razorpay'' True 2000 2000 2000"
  by (simp add: paidHealth_def paidSystem_value)

lemma paidHealth_disabled: "disabledGateways paidHealth = Map.empty"
  by (simp add: paidHealth_value recordTransaction_def Let_def freshHealth_def
      newGatewayHealthService_def)

lemma pendingForOrder_iff:
  "pendingForOrder ls oid
     = (\<exists>tid txn. orderToTransaction ls oid = Some tid \<and> transactions ls tid = Some txn
                   \<and> status txn = PENDING)"
  by (auto simp add: pendingForOrder_def split: option.splits)

lemma initiateTransaction_duplicate:
  "pendingForOrder ls (order_id_dto dto) \<Longrightarrow>
     initiateTransaction cfg pct ls hs dto now_sel rnd uuid now
       = (Inl TransactionAlreadyInitiated, ls, hs)"
  by (simp add: initiateTransaction_def)

lemma initiateTransaction_select_error:
  "\<not> pendingForOrder ls (order_id_dto dto) \<Longrightarrow>
   fst (selectGateway cfg pct hs now_sel rnd) = Inl e \<Longrightarrow>
     initiateTransaction cfg pct ls hs dto now_sel rnd uuid now
       = (Inl e, ls, snd (selectGateway cfg pct hs now_sel rnd))"
  by (cases "selectGateway cfg pct hs now_sel rnd") (simp add: initiateTransaction_def)

lemma initiateTransaction_created:
  assumes "\<not> pendingForOrder ls (order_id_dto dto)"
    and "fst (selectGateway cfg pct hs now_sel rnd) = Inr sel"
  shows "\<exists>t. initiateTransaction cfg pct ls hs dto now_sel rnd uuid now
           = (Inr t,
              ls\<lparr>transactions := (transactions ls)(uuid \<mapsto> t),
                 orderToTransaction := (orderToTransaction ls)(order_id_dto dto \<mapsto> uuid)\<rparr>,
              snd (selectGateway cfg pct hs now_sel rnd))
         \<and> id_txn t = uuid \<and> order_id t = order_id_dto dto \<and> status t = PENDING
         \<and> gateway t = gateway_sel sel
         \<and> payment_instrument t = sanitizePaymentInstrument (payment_instrument_dto dto)"
  using assms
  by (cases "selectGateway cfg pct hs now_sel rnd") (simp add: initiateTransaction_def Let_def)

lemma select_never_duplicate_error:
  "fst (selectGateway cfg pct hs now_sel rnd) \<noteq> Inl TransactionAlreadyInitiated"
  using selectGateway_cases [of cfg hs now_sel pct rnd] by (auto simp del: not_None_eq)

lemma initiateTransaction_error_iff:
  "(fst (initiateTransaction cfg pct ls hs dto now_sel rnd uuid now)
      = Inl TransactionAlreadyInitiated) = pendingForOrder ls (order_id_dto dto)"
proof (cases "pendingForOrder ls (order_id_dto dto)")
  case True
  then show ?thesis by (simp add: initiateTransaction_duplicate)
next
  case False
  show ?thesis
  proof (cases "fst (selectGateway cfg pct hs now_sel rnd)")
    case (Inl e)
    then show ?thesis
      using False select_never_duplicate_error [of cfg pct hs now_sel rnd]
      by (simp add: initiateTransaction_select_error [OF False Inl])
  next
    case (Inr sel)
    then show ?thesis
      using False initiateTransaction_created [OF False Inr, of uuid now] by auto
  qed
qed

lemma sanitize_card_number:
  "card_number (sanitizePaymentInstrument instrument)
     = (case card_number instrument of
          None \<Rightarrow> None
        | Some s \<Rightarrow> if s = [] then Some [] else Some (''****'' @ drop (length s - 4) s))"
  by (simp add: sanitizePaymentInstrument_def truthy_def Let_def split: option.splits)

lemma sanitize_cvv: "cvv (sanitizePaymentInstrument instrument) = None"
  by (simp add: sanitizePaymentInstrument_def Let_def)

lemma initiateTransaction_Inr:
  assumes "initiateTransaction cfg pct ls hs dto now_sel rnd uuid now = (Inr t, ls', hs')"
  shows "transactions ls' (id_txn t) = Some t
       \<and> payment_instrument t = sanitizePaymentInstrument (payment_instrument_dto dto)"
proof -
  have np: "\<not> pendingForOrder ls (order_id_dto dto)"
    using assms by (auto simp add: initiateTransaction_def)
  obtain r hs1 where s: "selectGateway cfg pct hs now_sel rnd = (r, hs1)"
    by (cases "selectGateway cfg pct hs now_sel rnd")
  obtain sel where r: "r = Inr sel"
    using assms np s by (cases r) (auto simp add: initiateTransaction_def)
  have "fst (selectGateway cfg pct hs now_sel rnd) = Inr sel" using s r by simp
  from initiateTransaction_created [OF np this, of uuid now] assms
  show ?thesis by auto
qed


subsection \<open>Duplicate orders\<close>

text \<open>
  Claim C6, as stated: when the order id is indexed to a terminal transaction,
  \<open>initiateTransaction\<close> succeeds.  It fails when no gateway is healthy: the order
  \<open>ORD123\<close> is indexed to \<open>txn-1\<close>, which has the status \<open>SUCCESS\<close>; with the three
  gateways disabled, a new \<open>initiateTransaction\<close> for \<open>ORD123\<close> raises
  \<open>NoHealthyGateways\<close> and stores nothing.
\<close>

theorem duplicate_order_counterexample:
  "orderToTransaction (fst (snd paidSystem)) (order_id_dto cardDto) = Some ''txn-1''
   \<and> map_option status (transactions (fst (snd paidSystem)) ''txn-1'') = Some SUCCESS
   \<and> initiateTransaction GATEWAY_CONFIG noPct (fst (snd paidSystem)) paidThenAllDisabled cardDto
        4000 (1 / 2) ''txn-2'' 4000
       = (Inl NoHealthyGateways, fst (snd paidSystem), paidThenAllDisabled)"
proof -
  have h: "getHealthyGateways GATEWAY_CONFIG paidThenAllDisabled 4000 = ([], paidThenAllDisabled)"
    by (simp add: paidThenAllDisabled_def GATEWAY_CONFIG_def isGatewayHealthy_def
        disableGateway_def)
  have s: "selectGateway GATEWAY_CONFIG noPct paidThenAllDisabled 4000 (1 / 2)
             = (Inl NoHealthyGateways, paidThenAllDisabled)"
    by (simp add: selectGateway_def getHealthyGatewayConfigs_def h)
  show ?thesis
    by (simp add: paidSystem_value initiateTransaction_def pendingForOrder_def s cardDto_def
        pendingTransaction_def)
qed

text \<open>
  Claim C6, amended.  \<open>initiateTransaction\<close> raises \<open>TransactionAlreadyInitiated\<close> if and
  only if the order id is indexed to a stored transaction whose status is \<open>PENDING\<close>, and
  then both service states are unchanged.  If the indexed transaction is terminal and the
  healthy set is not empty, the call succeeds: the new transaction is \<open>PENDING\<close>, carries
  the id drawn for it, is stored under that id, and the order id is indexed to it; when
  the drawn id is not already a key of the store, it differs from the id of the terminal
  transaction, which stays stored.  If the indexed transaction is terminal and the
  healthy set is empty, the call raises \<open>NoHealthyGateways\<close> and leaves the ledger
  unchanged.
\<close>

theorem duplicate_order_rule:
  "(fst (initiateTransaction cfg pct ls hs dto now_sel rnd uuid now)
      = Inl TransactionAlreadyInitiated)
     = (\<exists>tid txn. orderToTransaction ls (order_id_dto dto) = Some tid
                   \<and> transactions ls tid = Some txn \<and> status txn = PENDING)
   \<and> (fst (initiateTransaction cfg pct ls hs dto now_sel rnd uuid now)
         = Inl TransactionAlreadyInitiated
       \<longrightarrow> snd (initiateTransaction cfg pct ls hs dto now_sel rnd uuid now) = (ls, hs))
   \<and> (\<forall>tid txn. orderToTransaction ls (order_id_dto dto) = Some tid
         \<and> transactions ls tid = Some txn \<and> status txn \<noteq> PENDING \<longrightarrow>
         ({name c | c. c \<in> set cfg \<and> enabled c \<and> fst (isGatewayHealthy hs (name c) now_sel)}
             \<noteq> {} \<longrightarrow>
            (\<exists>t ls' hs'. initiateTransaction cfg pct ls hs dto now_sel rnd uuid now
                            = (Inr t, ls', hs')
               \<and> id_txn t = uuid \<and> order_id t = order_id_dto dto \<and> status t = PENDING
               \<and> orderToTransaction ls' (order_id_dto dto) = Some uuid
               \<and> transactions ls' uuid = Some t
               \<and> (uuid \<notin> dom (transactions ls) \<longrightarrow>
                     uuid \<noteq> tid \<and> transactions ls' tid = Some txn)))
       \<and> ({name c | c. c \<in> set cfg \<and> enabled c \<and> fst (isGatewayHealthy hs (name c) now_sel)}
             = {} \<longrightarrow>
            fst (initiateTransaction cfg pct ls hs dto now_sel rnd uuid now)
              = Inl NoHealthyGateways
            \<and> fst (snd (initiateTransaction cfg pct ls hs dto now_sel rnd uuid now)) = ls))"
proof (intro conjI allI impI)
  show "(fst (initiateTransaction cfg pct ls hs dto now_sel rnd uuid now)
      = Inl TransactionAlreadyInitiated)
     = (\<exists>tid txn. orderToTransaction ls (order_id_dto dto) = Some tid
                   \<and> transactions ls tid = Some txn \<and> status txn = PENDING)"
    by (simp only: initiateTransaction_error_iff pendingForOrder_iff)
next
  assume "fst (initiateTransaction cfg pct ls hs dto now_sel rnd uuid now)
         = Inl TransactionAlreadyInitiated"
  then have "pendingForOrder ls (order_id_dto dto)"
    by (simp only: initiateTransaction_error_iff)
  then show "snd (initiateTransaction cfg pct ls hs dto now_sel rnd uuid now) = (ls, hs)"
    by (simp add: initiateTransaction_duplicate)
next
  fix tid txn
  assume t: "orderToTransaction ls (order_id_dto dto) = Some tid
         \<and> transactions ls tid = Some txn \<and> status txn \<noteq> PENDING"
    and H: "{name c | c. c \<in> set cfg \<and> enabled c \<and> fst (isGatewayHealthy hs (name c) now_sel)}
             \<noteq> {}"
  have np: "\<not> pendingForOrder ls (order_id_dto dto)"
    using t by (simp add: pendingForOrder_def)
  obtain sel where sel: "fst (selectGateway cfg pct hs now_sel rnd) = Inr sel"
    using selectGateway_cases [of cfg hs now_sel pct rnd] H by blast
  obtain tr where tr: "initiateTransaction cfg pct ls hs dto now_sel rnd uuid now
           = (Inr tr,
              ls\<lparr>transactions := (transactions ls)(uuid \<mapsto> tr),
                 orderToTransaction := (orderToTransaction ls)(order_id_dto dto \<mapsto> uuid)\<rparr>,
              snd (selectGateway cfg pct hs now_sel rnd))"
      "id_txn tr = uuid" "order_id tr = order_id_dto dto" "status tr = PENDING"
    using initiateTransaction_created [OF np sel, of uuid now] by blast
  have fresh: "uuid \<notin> dom (transactions ls) \<longrightarrow> uuid \<noteq> tid" using t by auto
  show "\<exists>t ls' hs'. initiateTransaction cfg pct ls hs dto now_sel rnd uuid now
                            = (Inr t, ls', hs')
               \<and> id_txn t = uuid \<and> order_id t = order_id_dto dto \<and> status t = PENDING
               \<and> orderToTransaction ls' (order_id_dto dto) = Some uuid
               \<and> transactions ls' uuid = Some t
               \<and> (uuid \<notin> dom (transactions ls) \<longrightarrow>
                     uuid \<noteq> tid \<and> transactions ls' tid = Some txn)"
    apply (rule exI [of _ tr])
    apply (rule exI [of _ "ls\<lparr>transactions := (transactions ls)(uuid \<mapsto> tr),
                 orderToTransaction := (orderToTransaction ls)(order_id_dto dto \<mapsto> uuid)\<rparr>"])
    apply (rule exI [of _ "snd (selectGateway cfg pct hs now_sel rnd)"])
    using tr fresh t by auto
next
  fix tid txn
  assume t: "orderToTransaction ls (order_id_dto dto) = Some tid
         \<and> transactions ls tid = Some txn \<and> status txn \<noteq> PENDING"
    and H: "{name c | c. c \<in> set cfg \<and> enabled c \<and> fst (isGatewayHealthy hs (name c) now_sel)}
             = {}"
  have np: "\<not> pendingForOrder ls (order_id_dto dto)"
    using t by (simp add: pendingForOrder_def)
  have e: "fst (selectGateway cfg pct hs now_sel rnd) = Inl NoHealthyGateways"
    using selectGateway_cases [of cfg hs now_sel pct rnd] H by blast
  show "fst (initiateTransaction cfg pct ls hs dto now_sel rnd uuid now) = Inl NoHealthyGateways"
    by (simp add: initiateTransaction_select_error [OF np e])
  show "fst (snd (initiateTransaction cfg pct ls hs dto now_sel rnd uuid now)) = ls"
    by (simp add: initiateTransaction_select_error [OF np e])
qed

text \<open>A second \<open>initiateTransaction\<close> for \<open>ORD123\<close> is refused while \<open>txn-1\<close> is
  pending, and creates \<open>txn-2\<close> once \<open>txn-1\<close> has succeeded.\<close>

theorem duplicate_order_rule_witness:
  "fst (initiateTransaction GATEWAY_CONFIG noPct pendingLedger freshHealth cardDto
          3000 (1 / 2) ''txn-2'' 3000) = Inl TransactionAlreadyInitiated
   \<and> snd (initiateTransaction GATEWAY_CONFIG noPct pendingLedger freshHealth cardDto
          3000 (1 / 2) ''txn-2'' 3000) = (pendingLedger, freshHealth)
   \<and> (\<exists>t ls' hs'. initiateTransaction GATEWAY_CONFIG noPct paidLedger paidHealth cardDto
                      3000 (1 / 2) ''txn-2'' 3000 = (Inr t, ls', hs')
         \<and> id_txn t = ''txn-2'' \<and> status t = PENDING
         \<and> orderToTransaction ls' ''ORD123'' = Some ''txn-2''
         \<and> transactions ls' ''txn-2'' = Some t
         \<and> map_option status (transactions ls' ''txn-1'') = Some SUCCESS)"
proof -
  have p: "\<exists>tid txn. orderToTransaction pendingLedger (order_id_dto cardDto) = Some tid
             \<and> transactions pendingLedger tid = Some txn \<and> status txn = PENDING"
    by (simp add: pendingLedger_value cardDto_def pendingTransaction_def)
  have t: "orderToTransaction paidLedger (order_id_dto cardDto) = Some ''txn-1''
         \<and> transactions paidLedger ''txn-1''
             = Some (pendingTransaction\<lparr>status := SUCCESS, updated_at := 2000\<rparr>)
         \<and> status (pendingTransaction\<lparr>status := SUCCESS, updated_at := 2000\<rparr>) \<noteq> PENDING"
    by (simp add: paidLedger_value cardDto_def)
  have "''razorpay'' \<in> {name c | c. c \<in> set GATEWAY_CONFIG \<and> enabled c
                          \<and> fst (isGatewayHealthy paidHealth (name c) 3000)}"
    by (rule CollectI, rule exI [of _ "\<lparr>name = ''razorpay'', weight = 50, enabled = True\<rparr>"])
      (simp add: GATEWAY_CONFIG_def fst_isGatewayHealthy paidHealth_disabled)
  then have H: "{name c | c. c \<in> set GATEWAY_CONFIG \<and> enabled c
                          \<and> fst (isGatewayHealthy paidHealth (name c) 3000)} \<noteq> {}"
    by blast
  have f: "''txn-2'' \<notin> dom (transactions paidLedger)"
    by (simp add: paidLedger_value)
  have o: "order_id_dto cardDto = ''ORD123''" by (simp add: cardDto_def)
  note A = duplicate_order_rule [of GATEWAY_CONFIG noPct pendingLedger freshHealth cardDto
      3000 "1 / 2" "''txn-2''" 3000]
  note B = duplicate_order_rule [of GATEWAY_CONFIG noPct paidLedger paidHealth cardDto
      3000 "1 / 2" "''txn-2''" 3000]
  from B t H obtain tr ls' hs' where r:
    "initiateTransaction GATEWAY_CONFIG noPct paidLedger paidHealth cardDto
       3000 (1 / 2) ''txn-2'' 3000 = (Inr tr, ls', hs')"
    "id_txn tr = ''txn-2''" "status tr = PENDING"
    "orderToTransaction ls' (order_id_dto cardDto) = Some ''txn-2''"
    "transactions ls' ''txn-2'' = Some tr"
    "''txn-2'' \<notin> dom (transactions paidLedger) \<longrightarrow>
       transactions ls' ''txn-1''
         = Some (pendingTransaction\<lparr>status := SUCCESS, updated_at := 2000\<rparr>)"
    by blast
  have "map_option status (transactions ls' ''txn-1'') = Some SUCCESS"
    using r(6) f by simp
  then show ?thesis
    using A p r o by auto
qed


subsection \<open>Errors of the callback\<close>

text \<open>
  Claim C7.  Whenever \<open>processCallback\<close> raises \<open>GatewayMismatch\<close> or
  \<open>TransactionAlreadyProcessed\<close>, the ledger and the health tracker after the call are
  those before it: the stored transaction keeps its status and every other field, and no
  outcome is recorded.  For an order indexed to a stored transaction, \<open>GatewayMismatch\<close>
  is raised when the reported gateway differs from the stored one, and
  \<open>TransactionAlreadyProcessed\<close> when the gateways agree and the status is not
  \<open>PENDING\<close>.
\<close>

theorem callback_error_atomicity:
  "(fst (processCallback ls hs dto now now_rec now_stats now_trip) = Inl GatewayMismatch
    \<or> fst (processCallback ls hs dto now now_rec now_stats now_trip) = Inl TransactionAlreadyProcessed
    \<longrightarrow> snd (processCallback ls hs dto now now_rec now_stats now_trip) = (ls, hs))
   \<and> (\<forall>tid txn. orderToTransaction ls (order_id_cb dto) = Some tid \<and> tid \<noteq> []
         \<and> transactions ls tid = Some txn \<longrightarrow>
         (gateway txn \<noteq> gateway_cb dto \<longrightarrow>
            processCallback ls hs dto now now_rec now_stats now_trip
              = (Inl GatewayMismatch, ls, hs))
       \<and> (gateway txn = gateway_cb dto \<and> status txn \<noteq> PENDING \<longrightarrow>
            processCallback ls hs dto now now_rec now_stats now_trip
              = (Inl TransactionAlreadyProcessed, ls, hs)))"
  by (auto simp add: processCallback_def Let_def split: option.splits)


text \<open>A callback naming \<open>payu\<close> for the pending \<open>txn-1\<close> of \<open>razorpay\<close> is refused and
  \<open>txn-1\<close> stays \<open>PENDING\<close>; a failure callback after the success is refused and \<open>txn-1\<close>
  stays \<open>SUCCESS\<close>.\<close>

theorem callback_error_atomicity_witness:
  "processCallback pendingLedger freshHealth mismatchCallback 2000 2000 2000 2000
     = (Inl GatewayMismatch, pendingLedger, freshHealth)
   \<and> map_option status (transactions pendingLedger ''txn-1'') = Some PENDING
   \<and> processCallback paidLedger paidHealth failureCallback 3000 3000 3000 3000
     = (Inl TransactionAlreadyProcessed, paidLedger, paidHealth)
   \<and> map_option status (transactions paidLedger ''txn-1'') = Some SUCCESS"
proof -
  have a: "orderToTransaction pendingLedger (order_id_cb mismatchCallback) = Some ''txn-1''
         \<and> ''txn-1'' \<noteq> [] \<and> transactions pendingLedger ''txn-1'' = Some pendingTransaction"
    by (simp add: pendingLedger_value mismatchCallback_def)
  have a': "gateway pendingTransaction \<noteq> gateway_cb mismatchCallback"
    by (simp add: pendingTransaction_def mismatchCallback_def)
  have b: "orderToTransaction paidLedger (order_id_cb failureCallback) = Some ''txn-1''
         \<and> ''txn-1'' \<noteq> []
         \<and> transactions paidLedger ''txn-1''
             = Some (pendingTransaction\<lparr>status := SUCCESS, updated_at := 2000\<rparr>)"
    by (simp add: paidLedger_value failureCallback_def)
  have b': "gateway (pendingTransaction\<lparr>status := SUCCESS, updated_at := 2000\<rparr>)
               = gateway_cb failureCallback
          \<and> status (pendingTransaction\<lparr>status := SUCCESS, updated_at := 2000\<rparr>) \<noteq> PENDING"
    by (simp add: pendingTransaction_def failureCallback_def)
  have c: "map_option status (transactions pendingLedger ''txn-1'') = Some PENDING"
    by (simp add: pendingLedger_value pendingTransaction_def)
  have d: "map_option status (transactions paidLedger ''txn-1'') = Some SUCCESS"
    by (simp add: paidLedger_value)
  show ?thesis
    using callback_error_atomicity [of pendingLedger freshHealth mismatchCallback
        2000 2000 2000 2000]
      callback_error_atomicity [of paidLedger paidHealth failureCallback 3000 3000 3000 3000]
      a a' b b' c d
    by blast
qed


subsection \<open>Sanitization of the payment instrument\<close>

text \<open>
  Claim C8, as stated: the stored card number, when present, is the mask prefix followed
  by the last four digits.  It fails for a card number that is present and empty:
  \<open>initiateTransaction\<close> succeeds, \<open>getTransaction\<close> returns the stored record, and its
  card number is the empty string, without the mask prefix.
\<close>

theorem sanitization_counterexample:
  "card_number (payment_instrument_dto emptyCardDto) = Some []
   \<and> \<not> isl (fst emptyCardSystem)
   \<and> getTransaction (fst (snd emptyCardSystem)) ''txn-1'' = fst emptyCardSystem
   \<and> card_number (payment_instrument (projr (fst emptyCardSystem))) = Some []"
  by (simp add: emptyCardSystem_def initiateTransaction_def pendingForOrder_def
      newTransactionsService_def emptyCardDto_def select_fresh Let_def truthy_def
      sanitizePaymentInstrument_def cardInstrument_def getTransaction_def)

text \<open>
  Claim C8, amended.  For every input payment instrument, when \<open>initiateTransaction\<close>
  returns a transaction, \<open>getTransaction\<close> of its id returns that transaction; its
  payment instrument has no CVV; its card number, when the input has a non-empty one, is
  \<open>****\<close> followed by the last four characters of the input number (by the whole number
  when it is shorter); and it has no card number when the input has none.
\<close>

theorem sanitization_round_trip:
  assumes "initiateTransaction cfg pct ls hs dto now_sel rnd uuid now = (Inr t, ls', hs')"
  shows "getTransaction ls' (id_txn t) = Inr t
       \<and> cvv (payment_instrument t) = None
       \<and> (\<forall>s. card_number (payment_instrument_dto dto) = Some s \<and> s \<noteq> [] \<longrightarrow>
             card_number (payment_instrument t) = Some (''****'' @ drop (length s - 4) s))
       \<and> (card_number (payment_instrument_dto dto) = None \<longrightarrow>
             card_number (payment_instrument t) = None)"
  using initiateTransaction_Inr [OF assms]
  by (simp add: getTransaction_def sanitize_card_number sanitize_cvv)

theorem sanitization_round_trip_witness:
  "initiateTransaction GATEWAY_CONFIG noPct newTransactionsService freshHealth cardDto
     1000 (1 / 2) ''txn-1'' 1000 = (Inr pendingTransaction, pendingLedger, freshHealth)
   \<and> card_number (payment_instrument_dto cardDto) = Some ''4111111111111111''
   \<and> cvv (payment_instrument_dto cardDto) = Some ''123''
   \<and> getTransaction pendingLedger ''txn-1'' = Inr pendingTransaction
   \<and> card_number (payment_instrument pendingTransaction) = Some ''****1111''
   \<and> cvv (payment_instrument pendingTransaction) = None"
proof -
  have i: "initiateTransaction GATEWAY_CONFIG noPct newTransactionsService freshHealth cardDto
     1000 (1 / 2) ''txn-1'' 1000 = (Inr pendingTransaction, pendingLedger, freshHealth)"
    using pendingSystem_value by (simp add: pendingSystem_def pendingLedger_value)
  have c: "card_number (payment_instrument_dto cardDto) = Some ''4111111111111111''
         \<and> cvv (payment_instrument_dto cardDto) = Some ''123''"
    by (simp add: cardDto_def cardInstrument_def)
  have n: "id_txn pendingTransaction = ''txn-1''" by (simp add: pendingTransaction_def)
  show ?thesis
    using sanitization_round_trip [OF i] i c n by simp
qed



end
